theory Spec2Isabelle
  imports Main "HOL-Library.Word"
begin

unbundle bit_operations_syntax

section \<open>Strings as the source uses them\<close>

text \<open>
  A JavaScript string is modelled as a \<open>string\<close> (a list of characters). Case conversion
  acts on the ASCII letters, which is what every regular expression of the source that
  is modelled here can tell apart (\<open>[a-z0-9]\<close>, \<open>\w\<close>, \<open>\.md$\<close> with the \<open>i\<close> flag).
\<close>

definition toLowerChar :: "char \<Rightarrow> char" where
  "toLowerChar c =
     (let n = (of_char c :: nat) in if 65 \<le> n \<and> n \<le> 90 then char_of (n + 32) else c)"

definition toUpperChar :: "char \<Rightarrow> char" where
  "toUpperChar c =
     (let n = (of_char c :: nat) in if 97 \<le> n \<and> n \<le> 122 then char_of (n - 32) else c)"

definition toLowerCase :: "string \<Rightarrow> string" where
  "toLowerCase s = map toLowerChar s"

definition toUpperCase :: "string \<Rightarrow> string" where
  "toUpperCase s = map toUpperChar s"

definition startsWith :: "string \<Rightarrow> string \<Rightarrow> bool" where
  "startsWith s pre = (take (length pre) s = pre)"

definition endsWith :: "string \<Rightarrow> string \<Rightarrow> bool" where
  "endsWith s suf = (length suf \<le> length s \<and> drop (length s - length suf) s = suf)"

text \<open>\<open>s.split(c)\<close> for a one-character separator: never the empty list.\<close>

fun splitOn :: "char \<Rightarrow> string \<Rightarrow> string list" where
  "splitOn c [] = [[]]"
| "splitOn c (x # xs) =
     (if x = c then [] # splitOn c xs
      else (case splitOn c xs of [] \<Rightarrow> [[x]] | w # ws \<Rightarrow> (x # w) # ws))"

text \<open>\<open>xs.join(sep)\<close>.\<close>

fun joinWith :: "string \<Rightarrow> string list \<Rightarrow> string" where
  "joinWith sep [] = []"
| "joinWith sep [x] = x"
| "joinWith sep (x # y # ys) = x @ sep @ joinWith sep (y # ys)"

text \<open>\<open>xs.filter(Boolean)\<close> on strings: the empty string is the only falsy one.\<close>

definition filterBoolean :: "string list \<Rightarrow> string list" where
  "filterBoolean xs = filter (\<lambda>s. s \<noteq> []) xs"

text \<open>\<open>s.replace(/\.md$/i, "")\<close>.\<close>

definition endsMd :: "string \<Rightarrow> bool" where
  "endsMd s = endsWith (toLowerCase s) ''.md''"

definition stripMd :: "string \<Rightarrow> string" where
  "stripMd s = (if endsMd s then take (length s - 3) s else s)"

section \<open>PathIdentity: \<open>filePathToUrlPath\<close> and \<open>resolveLink\<close>\<close>

text \<open>\<open>s.replace(/\/?index$/, "")\<close>: the leftmost match takes the slash when there is one.\<close>

definition stripIndex :: "string \<Rightarrow> string" where
  "stripIndex s =
     (if endsWith s ''/index'' then take (length s - 6) s
      else if endsWith s ''index'' then take (length s - 5) s
      else s)"

definition filePathToUrlPath :: "string \<Rightarrow> string" where
  "filePathToUrlPath filePath =
     (let urlPath = stripMd filePath;
          urlPath' = (if endsWith urlPath ''/index'' \<or> urlPath = ''index''
                      then (let r = stripIndex urlPath in if r = [] then ''/'' else r)
                      else urlPath)
      in if startsWith urlPath' ''/'' then urlPath' else ''/'' @ urlPath')"

text \<open>\<open>s.replace(/\/[^/]*$/, "")\<close>: drops the last slash and what follows it.\<close>

definition dropLastSegment :: "string \<Rightarrow> string" where
  "dropLastSegment s =
     (if CHR ''/'' \<in> set s then rev (tl (dropWhile (\<lambda>c. c \<noteq> CHR ''/'') (rev s))) else s)"

text \<open>
  The loop \<open>while (hrefParts[0] === "..") { parts.pop(); hrefParts.shift(); }\<close>:
  \<open>pop\<close> on the empty array does nothing, and the loop ends when \<open>hrefParts\<close> is empty.
\<close>

fun popDots :: "string list \<Rightarrow> string list \<Rightarrow> string list \<times> string list" where
  "popDots parts [] = (parts, [])"
| "popDots parts (h # hs) =
     (if h = ''..'' then popDots (butlast parts) hs else (parts, h # hs))"

text \<open>\<open>s.replace(/\/+/g, "/")\<close>.\<close>

fun collapseSlashes :: "string \<Rightarrow> string" where
  "collapseSlashes [] = []"
| "collapseSlashes [x] = [x]"
| "collapseSlashes (x # y # xs) =
     (if x = CHR ''/'' \<and> y = CHR ''/'' then collapseSlashes (y # xs)
      else x # collapseSlashes (y # xs))"

definition resolveLink :: "string \<Rightarrow> string \<Rightarrow> string" where
  "resolveLink href currentPath =
     (if startsWith href ''http://'' \<or> startsWith href ''https://'' then href
      else if startsWith href ''#'' then href
      else if startsWith href ''/'' then stripMd href
      else
        (let currentDir = (if currentPath = ''/'' then [] else dropLastSegment currentPath);
             resolved =
               (if startsWith href ''./'' then currentDir @ ''/'' @ drop 2 href
                else if startsWith href ''../'' then
                  (case popDots (filterBoolean (splitOn CHR ''/'' currentDir))
                                (splitOn CHR ''/'' href) of
                     (parts, hrefParts) \<Rightarrow> ''/'' @ joinWith ''/'' (parts @ hrefParts))
                else currentDir @ ''/'' @ href);
             pieces = splitOn CHR ''#'' (stripMd resolved);
             path = hd pieces;
             anchor = (if 2 \<le> length pieces then pieces ! 1 else []);
             cleanPath = (let p = collapseSlashes path in if p = [] then ''/'' else p)
         in if anchor \<noteq> [] then cleanPath @ ''#'' @ anchor else cleanPath))"

section \<open>Slugs of the configured roots (\<open>cli.ts\<close>)\<close>

definition isLowerAlnum :: "char \<Rightarrow> bool" where
  "isLowerAlnum c =
     (let n = (of_char c :: nat) in (97 \<le> n \<and> n \<le> 122) \<or> (48 \<le> n \<and> n \<le> 57))"

text \<open>\<open>s.replace(/[^a-z0-9]+/g, "-")\<close>: every maximal run of other characters becomes one dash.\<close>

fun dashRuns :: "string \<Rightarrow> string" where
  "dashRuns [] = []"
| "dashRuns [x] = (if isLowerAlnum x then [x] else ''-'')"
| "dashRuns (x # y # xs) =
     (if isLowerAlnum x then x # dashRuns (y # xs)
      else if isLowerAlnum y then CHR ''-'' # dashRuns (y # xs)
      else dashRuns (y # xs))"

text \<open>\<open>s.replace(/^-|-$/g, "")\<close>: one dash at the start and one at the end.\<close>

definition trimDash :: "string \<Rightarrow> string" where
  "trimDash s =
     (let s1 = (if startsWith s ''-'' then tl s else s)
      in if endsWith s1 ''-'' then butlast s1 else s1)"

definition slugify :: "string list \<Rightarrow> string" where
  "slugify segments = trimDash (dashRuns (toLowerCase (joinWith ''-'' segments)))"

text \<open>\<open>p.split("/").filter(Boolean).reverse()\<close>: the segments of a path, leaf first.\<close>

definition pathSegmentsOf :: "string \<Rightarrow> string list" where
  "pathSegmentsOf p = rev (filterBoolean (splitOn CHR ''/'' p))"

text \<open>\<open>slugify(segments.slice(0, count).reverse())\<close>.\<close>

definition currentSlug :: "string list \<Rightarrow> nat \<Rightarrow> string" where
  "currentSlug segments count = slugify (rev (take count segments))"

text \<open>
  \<open>slugGroups\<close> is a \<open>Map\<close> from slug to the indices that produce it, in insertion order:
  an association list whose keys are in the order of their first appearance.
\<close>

fun groupPush :: "string \<Rightarrow> nat \<Rightarrow> (string \<times> nat list) list \<Rightarrow> (string \<times> nat list) list" where
  "groupPush slug i [] = [(slug, [i])]"
| "groupPush slug i ((k, v) # g) =
     (if k = slug then (k, v @ [i]) # g else (k, v) # groupPush slug i g)"

definition slugGroups :: "string list \<Rightarrow> (string \<times> nat list) list" where
  "slugGroups currentSlugs =
     fold (\<lambda>(i, slug). groupPush slug i) (enumerate 0 currentSlugs) []"

text \<open>\<open>if (segmentCounts[i] < pathSegments[i].length) segmentCounts[i]++\<close>.\<close>

definition expandIndex :: "string list list \<Rightarrow> nat \<Rightarrow> nat list \<Rightarrow> nat list" where
  "expandIndex pathSegments i segmentCounts =
     (if segmentCounts ! i < length (pathSegments ! i)
      then segmentCounts[i := segmentCounts ! i + 1] else segmentCounts)"

text \<open>One group of the \<open>for (const [, indices] of slugGroups)\<close> loop, on the pair
  \<open>(hasConflicts, segmentCounts)\<close>.\<close>

definition expandGroup ::
  "string list list \<Rightarrow> nat list \<Rightarrow> bool \<times> nat list \<Rightarrow> bool \<times> nat list" where
  "expandGroup pathSegments indices st =
     (if 1 < length indices
      then (True, fold (expandIndex pathSegments) indices (snd st)) else st)"

text \<open>One run of the body of \<open>while (hasConflicts)\<close>, which starts with \<open>hasConflicts = false\<close>.\<close>

definition slugPass :: "string list list \<Rightarrow> nat list \<Rightarrow> bool \<times> nat list" where
  "slugPass pathSegments segmentCounts =
     fold (\<lambda>(slug, indices). expandGroup pathSegments indices)
          (slugGroups (map2 currentSlug pathSegments segmentCounts))
          (False, segmentCounts)"

text \<open>The \<open>while (hasConflicts)\<close> loop. It may not return: the value is then \<open>None\<close>.\<close>

partial_function (option) slugLoop :: "string list list \<Rightarrow> nat list \<Rightarrow> nat list option" where
  "slugLoop pathSegments segmentCounts =
     (case slugPass pathSegments segmentCounts of
        (hasConflicts, segmentCounts') \<Rightarrow>
          if hasConflicts then slugLoop pathSegments segmentCounts' else Some segmentCounts')"

definition generateUniqueSlugs :: "string list \<Rightarrow> (string \<rightharpoonup> string) option" where
  "generateUniqueSlugs absolutePaths =
     (let pathSegments = map pathSegmentsOf absolutePaths;
          segmentCounts = replicate (length absolutePaths) (1::nat)
      in case slugLoop pathSegments segmentCounts of
           None \<Rightarrow> None
         | Some counts \<Rightarrow>
             Some (fold (\<lambda>(p, segments, count) result. result(p \<mapsto> currentSlug segments count))
                        (zip absolutePaths (zip pathSegments counts)) Map.empty))"

section \<open>Basic-auth middleware (\<open>middleware/auth.ts\<close>)\<close>

datatype response = NextCalled | Unauthorized

text \<open>
  \<open>timingSafeEqual\<close>: equal lengths, and the bitwise OR of the XORs of the character
  codes is zero.
\<close>

definition timingSafeEqual :: "string \<Rightarrow> string \<Rightarrow> bool" where
  "timingSafeEqual a b =
     (if length a \<noteq> length b then False
      else fold (\<lambda>(x, y) result. result OR ((of_char x :: nat) XOR of_char y)) (zip a b) 0 = 0)"

text \<open>
  \<open>createAuthMiddleware\<close> returns the warnings it logs and the handler, a function from
  the request's \<open>Authorization\<close> header (absent: \<open>None\<close>) to what the handler does.
  \<open>btoa\<close> is the runtime's base64 encoder, a parameter. The destructuring
  \<open>[username, password] = credentials.split(":")\<close> reads the first two pieces; a missing
  second piece is \<open>undefined\<close>, here \<open>None\<close>.
\<close>

definition createAuthMiddleware ::
  "(string \<Rightarrow> string) \<Rightarrow> string option \<Rightarrow> string list \<times> (string option \<Rightarrow> response)" where
  "createAuthMiddleware btoa credentials =
     (case credentials of
        None \<Rightarrow> ([], \<lambda>authHeader. NextCalled)
      | Some c \<Rightarrow>
          if c = [] then ([], \<lambda>authHeader. NextCalled)
          else
            (let pieces = splitOn CHR '':'' c;
                 username = hd pieces;
                 password = (if 2 \<le> length pieces then Some (pieces ! 1) else None)
             in if username = [] \<or> password = None \<or> password = Some []
                then ([''Warning: Invalid auth format. Expected 'username:password'. Auth disabled.''],
                      \<lambda>authHeader. NextCalled)
                else
                  (let expectedAuth = ''Basic '' @ btoa (username @ '':'' @ the password)
                   in ([], \<lambda>authHeader.
                        (case authHeader of
                           None \<Rightarrow> Unauthorized
                         | Some h \<Rightarrow>
                             if h = [] \<or> \<not> timingSafeEqual h expectedAuth then Unauthorized
                             else NextCalled)))))"

section \<open>The content source (\<open>content/filesystem.ts\<close>, \<open>content/types.ts\<close>)\<close>

subsection \<open>Display names\<close>

text \<open>\<open>\w\<close> is \<open>[A-Za-z0-9_]\<close>.\<close>

definition isWordChar :: "char \<Rightarrow> bool" where
  "isWordChar c =
     (let n = (of_char c :: nat)
      in (48 \<le> n \<and> n \<le> 57) \<or> (65 \<le> n \<and> n \<le> 90) \<or> n = 95 \<or> (97 \<le> n \<and> n \<le> 122))"

definition VOWEL_ACRONYMS :: "string list" where
  "VOWEL_ACRONYMS =
     [''ai'', ''api'', ''ui'', ''ux'', ''uri'', ''url'', ''io'', ''os'',
      ''aws'', ''gcp'', ''ide'', ''oauth'', ''saas'', ''paas'', ''iaas'',
      ''uuid'', ''guid'', ''yaml'', ''toml'',
      ''html'', ''css'', ''json'', ''xml'', ''sql'', ''graphql'', ''rest'',
      ''http'', ''https'', ''tcp'', ''udp'', ''ip'', ''dns'', ''ssl'', ''tls'',
      ''jwt'', ''ssh'', ''seo'', ''cms'', ''crm'', ''erp'', ''iot'',
      ''pdf'', ''svg'', ''png'', ''gif'', ''jpg'', ''jpeg'', ''csv'', ''md'']"

definition isAcronym :: "string \<Rightarrow> bool" where
  "isAcronym word =
     (let lower = toLowerCase word
      in if List.member VOWEL_ACRONYMS lower then True
         else if 2 \<le> length lower \<and> length lower \<le> 3
                 \<and> \<not> list_ex (\<lambda>c. List.member ''aeiou'' c) lower then True
         else False)"

text \<open>\<open>s.replace(/\b\w/g, c => c.toUpperCase())\<close>: the first character of every run of word
  characters; the flag says whether the previous character was a word character.\<close>

fun capitalizeWords :: "bool \<Rightarrow> string \<Rightarrow> string" where
  "capitalizeWords prev [] = []"
| "capitalizeWords prev (c # cs) =
     (if isWordChar c \<and> \<not> prev then toUpperChar c else c) # capitalizeWords (isWordChar c) cs"

text \<open>\<open>s.replace(/\b\w+\b/g, f)\<close>: \<open>f\<close> on every maximal run of word characters; the
  second argument is the run read so far.\<close>

fun mapWords :: "(string \<Rightarrow> string) \<Rightarrow> string \<Rightarrow> string \<Rightarrow> string" where
  "mapWords f w [] = (if w = [] then [] else f w)"
| "mapWords f w (c # cs) =
     (if isWordChar c then mapWords f (w @ [c]) cs
      else (if w = [] then [] else f w) @ c # mapWords f [] cs)"

definition humanize :: "string \<Rightarrow> string" where
  "humanize filename =
     mapWords (\<lambda>word. if isAcronym word then toUpperCase word else word) []
       (capitalizeWords False
          (map (\<lambda>c. if c = CHR ''-'' \<or> c = CHR ''_'' then CHR '' '' else c) filename))"

subsection \<open>Paths of \<open>node:path\<close>\<close>

text \<open>
  \<open>extname\<close> and \<open>basename\<close> are applied to the name of a directory entry, which has no
  slash: the extension runs from the last dot, unless that dot starts the name or the
  name is \<open>..\<close>; \<open>basename(nm, suffix)\<close> drops the suffix, compared case-sensitively.
\<close>

definition extname :: "string \<Rightarrow> string" where
  "extname nm =
     (if \<not> List.member nm CHR ''.'' then []
      else if rev (tl (dropWhile (\<lambda>c. c \<noteq> CHR ''.'') (rev nm))) = [] \<or> nm = ''..'' then []
      else CHR ''.'' # rev (takeWhile (\<lambda>c. c \<noteq> CHR ''.'') (rev nm)))"

definition basename :: "string \<Rightarrow> string \<Rightarrow> string" where
  "basename nm suffix =
     (if nm = suffix then []
      else if endsWith nm suffix then take (length nm - length suffix) nm
      else nm)"

text \<open>
  \<open>join\<close> on an absolute first argument: the pieces are joined by a slash and the result
  is normalised. Empty and \<open>.\<close> segments are dropped, \<open>..\<close> drops the segment before it
  (and nothing at the root), and a trailing slash is kept.
\<close>

fun normalizeSegments :: "string list \<Rightarrow> string list \<Rightarrow> string list" where
  "normalizeSegments kept [] = kept"
| "normalizeSegments kept (s # ss) =
     (if s = [] \<or> s = ''.'' then normalizeSegments kept ss
      else if s = ''..'' then normalizeSegments (butlast kept) ss
      else normalizeSegments (kept @ [s]) ss)"

definition normalize :: "string \<Rightarrow> string" where
  "normalize p =
     (let inner = joinWith ''/'' (normalizeSegments [] (splitOn CHR ''/'' p))
      in ''/'' @ inner @ (if inner \<noteq> [] \<and> endsWith p ''/'' then ''/'' else []))"

definition join :: "string \<Rightarrow> string \<Rightarrow> string" where
  "join a b = normalize (if b = [] then a else a @ ''/'' @ b)"

subsection \<open>The filesystem\<close>

text \<open>
  The storage is a tree. A regular file holds its text, or \<open>None\<close> when reading it
  fails. A directory holds its entries in the order \<open>readdir\<close> lists them;
  \<open>UnlistableDir\<close> is a directory that can be neither listed nor searched. \<open>Special\<close> is an entry
  for which both \<open>isFile()\<close> and \<open>isDirectory()\<close> are false (a socket, a pipe, a link to a
  file); it holds what \<open>readFile\<close> gives. Links to directories are not modelled.
\<close>

datatype fsnode =
    RegularFile "string option"
  | Dir "(string \<times> fsnode) list"
  | UnlistableDir
  | Special "string option"

datatype error = ReaddirFailed | HighlighterRejected

fun isDirectory :: "fsnode \<Rightarrow> bool" where
  "isDirectory (Dir entries) = True"
| "isDirectory UnlistableDir = True"
| "isDirectory (RegularFile c) = False"
| "isDirectory (Special c) = False"

fun lookupNode :: "fsnode \<Rightarrow> string list \<Rightarrow> fsnode option" where
  "lookupNode n [] = Some n"
| "lookupNode (Dir entries) (s # ss) =
     (case map_of entries s of None \<Rightarrow> None | Some n \<Rightarrow> lookupNode n ss)"
| "lookupNode (RegularFile c) (s # ss) = None"
| "lookupNode UnlistableDir (s # ss) = None"
| "lookupNode (Special c) (s # ss) = None"

text \<open>\<open>stat(p)\<close>: the node at an absolute path, \<open>None\<close> when the call throws. A path with
  a trailing slash names a directory only.\<close>

definition stat :: "fsnode \<Rightarrow> string \<Rightarrow> fsnode option" where
  "stat fs p =
     (case lookupNode fs (filterBoolean (splitOn CHR ''/'' p)) of
        None \<Rightarrow> None
      | Some n \<Rightarrow> if endsWith p ''/'' \<and> \<not> isDirectory n then None else Some n)"

definition readFile :: "fsnode \<Rightarrow> string \<Rightarrow> string option" where
  "readFile fs p =
     (case stat fs p of
        Some (RegularFile c) \<Rightarrow> c
      | Some (Special c) \<Rightarrow> c
      | _ \<Rightarrow> None)"

definition readdir :: "fsnode \<Rightarrow> string \<Rightarrow> (string \<times> fsnode) list option" where
  "readdir fs p = (case stat fs p of Some (Dir entries) \<Rightarrow> Some entries | _ \<Rightarrow> None)"

subsection \<open>Documents and navigation nodes\<close>

record frontmatter =
  title :: "string option"
  order :: "int option"

record fileContent =
  raw :: string
  frontmatter :: frontmatter
  body :: string

datatype nodetype = FileNode | DirectoryNode

datatype navnode =
  NavNode (name: string) (path: string) (type: nodetype) (children: "navnode list")
    (order: "int option")

text \<open>
  \<open>readFileContent\<close>: \<open>matter\<close> is the front-matter parser of the \<open>gray-matter\<close> library, a
  parameter. The library keeps state between calls (it remembers the texts it was
  given), so a call takes the state of the library and returns the new one, with the
  data and the body, or \<open>None\<close> when the call throws. A failing \<open>readFile\<close> and a
  throwing \<open>matter\<close> are both caught and give \<open>null\<close>; \<open>matter\<close> is not called when
  \<open>readFile\<close> has failed.
\<close>

definition parseFileContent ::
  "(string \<Rightarrow> 's \<Rightarrow> (frontmatter \<times> string) option \<times> 's) \<Rightarrow> string option \<Rightarrow> 's
     \<Rightarrow> fileContent option \<times> 's" where
  "parseFileContent matter r ms =
     (case r of
        None \<Rightarrow> (None, ms)
      | Some text \<Rightarrow>
          (case matter text ms of
             (None, ms1) \<Rightarrow> (None, ms1)
           | (Some (data, content), ms1) \<Rightarrow>
               (Some \<lparr>raw = text, frontmatter = data, body = content\<rparr>, ms1)))"

definition readFileContent ::
  "(string \<Rightarrow> 's \<Rightarrow> (frontmatter \<times> string) option \<times> 's) \<Rightarrow> fsnode \<Rightarrow> string \<Rightarrow> 's
     \<Rightarrow> fileContent option \<times> 's" where
  "readFileContent matter fs filePath ms = parseFileContent matter (readFile fs filePath) ms"

subsection \<open>Sibling order\<close>

definition indexNames :: "string list" where
  "indexNames = [''index'', ''readme'', ''overview'']"

text \<open>\<open>a.path.split("/").pop()?.toLowerCase() || ""\<close>.\<close>

definition lastSegmentLower :: "navnode \<Rightarrow> string" where
  "lastSegmentLower a = toLowerCase (last (splitOn CHR ''/'' (path a)))"

definition isIndex :: "navnode \<Rightarrow> bool" where
  "isIndex a = (type a = FileNode \<and> List.member indexNames (lastSegmentLower a))"

text \<open>\<open>xs.indexOf(x)\<close>: the first position, or \<open>-1\<close>.\<close>

fun indexOf :: "string list \<Rightarrow> string \<Rightarrow> int" where
  "indexOf [] x = -1"
| "indexOf (y # ys) x =
     (if y = x then 0 else (let i = indexOf ys x in if i < 0 then -1 else i + 1))"

text \<open>The comparator of \<open>nodes.sort\<close>. \<open>lc\<close> is \<open>localeCompare\<close>, a parameter.\<close>

definition compareNodes :: "(string \<Rightarrow> string \<Rightarrow> int) \<Rightarrow> navnode \<Rightarrow> navnode \<Rightarrow> int" where
  "compareNodes lc a b =
     (let aIsIndex = isIndex a; bIsIndex = isIndex b
      in if aIsIndex \<and> \<not> bIsIndex then -1
         else if bIsIndex \<and> \<not> aIsIndex then 1
         else if aIsIndex \<and> bIsIndex
           then indexOf indexNames (lastSegmentLower a) - indexOf indexNames (lastSegmentLower b)
         else if type a \<noteq> type b then (if type a = DirectoryNode then -1 else 1)
         else (case (order a, order b) of
                 (Some x, Some y) \<Rightarrow> x - y
               | (Some x, None) \<Rightarrow> -1
               | (None, Some y) \<Rightarrow> 1
               | (None, None) \<Rightarrow> lc (name a) (name b)))"

text \<open>
  \<open>Array.prototype.sort\<close> is stable: the result is that of a stable insertion sort
  with the comparator, each node going before the first later node it does not
  follow.
\<close>

fun insertNode :: "(string \<Rightarrow> string \<Rightarrow> int) \<Rightarrow> navnode \<Rightarrow> navnode list \<Rightarrow> navnode list" where
  "insertNode lc a [] = [a]"
| "insertNode lc a (b # bs) =
     (if compareNodes lc a b \<le> 0 then a # b # bs else b # insertNode lc a bs)"

definition sortNodes :: "(string \<Rightarrow> string \<Rightarrow> int) \<Rightarrow> navnode list \<Rightarrow> navnode list" where
  "sortNodes lc nodes = foldr (insertNode lc) nodes []"

subsection \<open>Scanning\<close>

fun isFile :: "fsnode \<Rightarrow> bool" where
  "isFile (RegularFile c) = True"
| "isFile (Dir entries) = False"
| "isFile UnlistableDir = False"
| "isFile (Special c) = False"

fun fileText :: "fsnode \<Rightarrow> string option" where
  "fileText (RegularFile c) = c"
| "fileText (Special c) = c"
| "fileText (Dir entries) = None"
| "fileText UnlistableDir = None"

text \<open>\<open>relativePath ? `${relativePath}/${entry.name}` : entry.name\<close>.\<close>

definition entryRelativePath :: "string \<Rightarrow> string \<Rightarrow> string" where
  "entryRelativePath relativePath nm =
     (if relativePath \<noteq> [] then relativePath @ ''/'' @ nm else nm)"

text \<open>\<open>content?.frontmatter.title || humanize(nameWithoutExt)\<close> and
  \<open>content?.frontmatter.order\<close>.\<close>

definition nodeName :: "fileContent option \<Rightarrow> string \<Rightarrow> string" where
  "nodeName content nameWithoutExt =
     (case content of
        None \<Rightarrow> humanize nameWithoutExt
      | Some c \<Rightarrow>
          (case title (frontmatter c) of
             None \<Rightarrow> humanize nameWithoutExt
           | Some t \<Rightarrow> if t = [] then humanize nameWithoutExt else t))"

definition nodeOrder :: "fileContent option \<Rightarrow> int option" where
  "nodeOrder content =
     (case content of None \<Rightarrow> None | Some c \<Rightarrow> frontmatter.order (frontmatter c))"

text \<open>The two \<open>pathMap.set\<close> calls for a document.\<close>

definition registerPath :: "string \<Rightarrow> string \<Rightarrow> string \<Rightarrow> (string \<rightharpoonup> string) \<Rightarrow> (string \<rightharpoonup> string)" where
  "registerPath nameWithoutExt urlPath entryPath pm =
     (let pm1 = pm(urlPath \<mapsto> entryPath)
      in if toLowerCase nameWithoutExt = ''index''
         then pm1((if urlPath = ''/'' then ''/'' else urlPath) \<mapsto> entryPath)
         else pm1)"

text \<open>
  \<open>scanDirectory\<close> takes the node at \<open>dirPath\<close>: \<open>readdir\<close> lists a directory and throws
  on anything else. \<open>scanEntries\<close> is the loop over the entries. Both thread
  \<open>this.pathMap\<close> and the state of \<open>matter\<close>, and return them also when \<open>readdir\<close> has
  thrown. The node of an entry is what \<open>readdir\<close> and \<open>readFile\<close> find at
  \<open>join(dirPath, entry.name)\<close>.
\<close>

fun scanDirectory ::
  "(string \<Rightarrow> 's \<Rightarrow> (frontmatter \<times> string) option \<times> 's) \<Rightarrow> (string \<Rightarrow> string \<Rightarrow> int)
     \<Rightarrow> string \<Rightarrow> string \<Rightarrow> fsnode \<Rightarrow> (string \<rightharpoonup> string) \<Rightarrow> 's
     \<Rightarrow> (error + navnode list) \<times> (string \<rightharpoonup> string) \<times> 's"
and scanEntries ::
  "(string \<Rightarrow> 's \<Rightarrow> (frontmatter \<times> string) option \<times> 's) \<Rightarrow> (string \<Rightarrow> string \<Rightarrow> int)
     \<Rightarrow> string \<Rightarrow> string \<Rightarrow> (string \<times> fsnode) list \<Rightarrow> (string \<rightharpoonup> string) \<Rightarrow> 's
     \<Rightarrow> (error + navnode list) \<times> (string \<rightharpoonup> string) \<times> 's"
where
  "scanDirectory matter lc dirPath relativePath (Dir entries) pm ms =
     (case scanEntries matter lc dirPath relativePath entries pm ms of
        (Inl e, pm1, ms1) \<Rightarrow> (Inl e, pm1, ms1)
      | (Inr nodes, pm1, ms1) \<Rightarrow> (Inr (sortNodes lc nodes), pm1, ms1))"
| "scanDirectory matter lc dirPath relativePath UnlistableDir pm ms = (Inl ReaddirFailed, pm, ms)"
| "scanDirectory matter lc dirPath relativePath (RegularFile c) pm ms = (Inl ReaddirFailed, pm, ms)"
| "scanDirectory matter lc dirPath relativePath (Special c) pm ms = (Inl ReaddirFailed, pm, ms)"
| "scanEntries matter lc dirPath relativePath [] pm ms = (Inr [], pm, ms)"
| "scanEntries matter lc dirPath relativePath ((nm, node) # rest) pm ms =
     (if startsWith nm ''.'' then scanEntries matter lc dirPath relativePath rest pm ms
      else if isDirectory node then
        (case scanDirectory matter lc (join dirPath nm) (entryRelativePath relativePath nm)
                node pm ms of
           (Inl e, pm1, ms1) \<Rightarrow> (Inl e, pm1, ms1)
         | (Inr childNodes, pm1, ms1) \<Rightarrow>
             (case scanEntries matter lc dirPath relativePath rest pm1 ms1 of
                (Inl e, pm2, ms2) \<Rightarrow> (Inl e, pm2, ms2)
              | (Inr nodes, pm2, ms2) \<Rightarrow>
                  (Inr ((if childNodes \<noteq> []
                         then [NavNode (humanize nm) (''/'' @ entryRelativePath relativePath nm)
                                 DirectoryNode childNodes None]
                         else []) @ nodes), pm2, ms2)))
      else if isFile node \<and> toLowerCase (extname nm) = ''.md'' then
        (case parseFileContent matter (fileText node) ms of
           (content, ms1) \<Rightarrow>
             (let nameWithoutExt = basename nm ''.md'';
                  urlPath = filePathToUrlPath (entryRelativePath relativePath nm);
                  pm1 = registerPath nameWithoutExt urlPath (join dirPath nm) pm
              in case scanEntries matter lc dirPath relativePath rest pm1 ms1 of
                   (Inl e, pm2, ms2) \<Rightarrow> (Inl e, pm2, ms2)
                 | (Inr nodes, pm2, ms2) \<Rightarrow>
                     (Inr (NavNode (nodeName content nameWithoutExt) urlPath FileNode []
                             (nodeOrder content) # nodes), pm2, ms2)))
      else scanEntries matter lc dirPath relativePath rest pm ms)"

subsection \<open>The source object\<close>

text \<open>The fields of \<open>FilesystemSource\<close> that the modelled methods read or write;
  \<open>watcher\<close> says whether \<open>this.watcher\<close> is set.\<close>

record sourceState =
  rootPath :: string
  pathMap :: "string \<rightharpoonup> string"
  navTree :: "navnode list option"
  siteTitle :: "string option"
  watcher :: bool

definition getTree ::
  "(string \<Rightarrow> 's \<Rightarrow> (frontmatter \<times> string) option \<times> 's) \<Rightarrow> (string \<Rightarrow> string \<Rightarrow> int)
     \<Rightarrow> fsnode \<Rightarrow> sourceState \<Rightarrow> 's \<Rightarrow> (error + navnode list) \<times> sourceState \<times> 's" where
  "getTree matter lc fs st ms =
     (case navTree st of
        Some t \<Rightarrow> (Inr t, st, ms)
      | None \<Rightarrow>
          (case stat fs (rootPath st) of
             None \<Rightarrow> (Inl ReaddirFailed, st\<lparr>pathMap := Map.empty\<rparr>, ms)
           | Some node \<Rightarrow>
               (case scanDirectory matter lc (rootPath st) [] node Map.empty ms of
                  (Inl e, pm, ms1) \<Rightarrow> (Inl e, st\<lparr>pathMap := pm\<rparr>, ms1)
                | (Inr nodes, pm, ms1) \<Rightarrow>
                    (Inr nodes, st\<lparr>pathMap := pm, navTree := Some nodes\<rparr>, ms1))))"

text \<open>\<open>!filePath\<close>: \<open>undefined\<close> and the empty string are falsy.\<close>

definition falsy :: "string option \<Rightarrow> bool" where
  "falsy filePath = (case filePath of None \<Rightarrow> True | Some p \<Rightarrow> p = [])"

text \<open>The loop over \<open>["index.md", "README.md", "overview.md"]\<close>: the first one that
  \<open>stat\<close> finds.\<close>

fun firstFallback :: "fsnode \<Rightarrow> string \<Rightarrow> string list \<Rightarrow> string option" where
  "firstFallback fs dirPath [] = None"
| "firstFallback fs dirPath (fallback # others) =
     (case stat fs (join dirPath fallback) of
        Some n \<Rightarrow> Some (join dirPath fallback)
      | None \<Rightarrow> firstFallback fs dirPath others)"

definition fallbacks :: "string list" where
  "fallbacks = [''index.md'', ''README.md'', ''overview.md'']"

text \<open>The three lookups of \<open>getContent\<close>, on the path table as \<open>getTree\<close> left it.\<close>

definition resolveFilePath :: "fsnode \<Rightarrow> sourceState \<Rightarrow> string \<Rightarrow> string option" where
  "resolveFilePath fs st normalizedPath =
     (let filePath = pathMap st normalizedPath;
          filePath1 = (if falsy filePath \<and> normalizedPath \<noteq> ''/''
                       then pathMap st (normalizedPath @ ''/'') else filePath)
      in if falsy filePath1 then
           (let dirPath = (if normalizedPath = ''/'' then rootPath st
                           else join (rootPath st) (drop 1 normalizedPath))
            in case stat fs dirPath of
                 None \<Rightarrow> filePath1
               | Some stats \<Rightarrow>
                   if isDirectory stats then
                     (case firstFallback fs dirPath fallbacks of
                        None \<Rightarrow> filePath1
                      | Some fallbackPath \<Rightarrow> Some fallbackPath)
                   else filePath1)
         else filePath1)"

definition getContent ::
  "(string \<Rightarrow> 's \<Rightarrow> (frontmatter \<times> string) option \<times> 's) \<Rightarrow> (string \<Rightarrow> string \<Rightarrow> int)
     \<Rightarrow> fsnode \<Rightarrow> string \<Rightarrow> sourceState \<Rightarrow> 's
     \<Rightarrow> (error + fileContent option) \<times> sourceState \<times> 's" where
  "getContent matter lc fs urlPath st ms =
     (case getTree matter lc fs st ms of
        (Inl e, st1, ms1) \<Rightarrow> (Inl e, st1, ms1)
      | (Inr tree, st1, ms1) \<Rightarrow>
          (let normalizedPath = (if urlPath = [] then ''/'' else urlPath);
               filePath = resolveFilePath fs st1 normalizedPath
           in if falsy filePath then (Inr None, st1, ms1)
              else (case readFileContent matter fs (the filePath) ms1 of
                      (content, ms2) \<Rightarrow> (Inr content, st1, ms2))))"

subsection \<open>What a scan can see\<close>

text \<open>
  The entries of a directory tree, each with the absolute path and the relative path
  that the scan computes for it, its name and its node; the entries of a directory
  follow the directory.
\<close>

fun entriesBelow ::
  "string \<Rightarrow> string \<Rightarrow> (string \<times> fsnode) list \<Rightarrow> (string \<times> string \<times> string \<times> fsnode) list" where
  "entriesBelow dirPath relativePath [] = []"
| "entriesBelow dirPath relativePath ((nm, Dir sub) # rest) =
     (join dirPath nm, entryRelativePath relativePath nm, nm, Dir sub)
       # entriesBelow (join dirPath nm) (entryRelativePath relativePath nm) sub
       @ entriesBelow dirPath relativePath rest"
| "entriesBelow dirPath relativePath ((nm, RegularFile c) # rest) =
     (join dirPath nm, entryRelativePath relativePath nm, nm, RegularFile c)
       # entriesBelow dirPath relativePath rest"
| "entriesBelow dirPath relativePath ((nm, UnlistableDir) # rest) =
     (join dirPath nm, entryRelativePath relativePath nm, nm, UnlistableDir)
       # entriesBelow dirPath relativePath rest"
| "entriesBelow dirPath relativePath ((nm, Special c) # rest) =
     (join dirPath nm, entryRelativePath relativePath nm, nm, Special c)
       # entriesBelow dirPath relativePath rest"

text \<open>The entries below a node: those of a directory that can be listed.\<close>

fun entriesOf :: "string \<Rightarrow> string \<Rightarrow> fsnode \<Rightarrow> (string \<times> string \<times> string \<times> fsnode) list" where
  "entriesOf dirPath relativePath (Dir entries) = entriesBelow dirPath relativePath entries"
| "entriesOf dirPath relativePath UnlistableDir = []"
| "entriesOf dirPath relativePath (RegularFile c) = []"
| "entriesOf dirPath relativePath (Special c) = []"

text \<open>The entries below the root of a source.\<close>

definition rootEntries :: "fsnode \<Rightarrow> string \<Rightarrow> (string \<times> string \<times> string \<times> fsnode) list" where
  "rootEntries fs root =
     (case stat fs root of None \<Rightarrow> [] | Some node \<Rightarrow> entriesOf root [] node)"

text \<open>The test \<open>entry.isFile() && extname(entry.name).toLowerCase() === ".md"\<close> on such an
  entry.\<close>

definition isDocument :: "string \<times> string \<times> string \<times> fsnode \<Rightarrow> bool" where
  "isDocument e = (case e of (entryPath, rel, nm, node) \<Rightarrow>
                     isFile node \<and> toLowerCase (extname nm) = ''.md'')"

text \<open>All nodes of a navigation tree, and those of type \<open>file\<close>.\<close>

fun allNodes :: "navnode \<Rightarrow> navnode list" where
  "allNodes (NavNode n p t cs ord) = NavNode n p t cs ord # concat (map allNodes cs)"

definition fileNodes :: "navnode list \<Rightarrow> navnode list" where
  "fileNodes tree = filter (\<lambda>n. type n = FileNode) (concat (map allNodes tree))"

subsection \<open>Watching\<close>

text \<open>
  \<open>watch(callback)\<close> creates a watcher of the change notifier, registers \<open>handleChange\<close>
  (which calls \<open>callback\<close>) for five of its events and stores the watcher in
  \<open>this.watcher\<close>, without closing a watcher stored there before. \<open>unwatch\<close> closes the
  stored watcher only. The world is the source, the callbacks of the watchers that are
  open (oldest first; the stored watcher, when there is one, is the last) and the
  callbacks called so far, in order. A callback is a number that names it.
\<close>

datatype fsevent = Add | Change | Unlink | AddDir | UnlinkDir | Ready | RawEvent

record watchWorld =
  source :: sourceState
  openWatchers :: "nat list"
  called :: "nat list"

definition watch :: "nat \<Rightarrow> watchWorld \<Rightarrow> watchWorld" where
  "watch callback w =
     w\<lparr>source := (source w)\<lparr>watcher := True\<rparr>, openWatchers := openWatchers w @ [callback]\<rparr>"

definition unwatch :: "watchWorld \<Rightarrow> watchWorld" where
  "unwatch w =
     (if watcher (source w)
      then w\<lparr>source := (source w)\<lparr>watcher := False\<rparr>, openWatchers := butlast (openWatchers w)\<rparr>
      else w)"

definition handleChange :: "nat \<Rightarrow> watchWorld \<Rightarrow> watchWorld" where
  "handleChange callback w =
     w\<lparr>source := (source w)\<lparr>navTree := None, siteTitle := None\<rparr>,
       called := called w @ [callback]\<rparr>"

fun hasListener :: "fsevent \<Rightarrow> bool" where
  "hasListener Add = True"
| "hasListener Change = True"
| "hasListener Unlink = True"
| "hasListener AddDir = True"
| "hasListener UnlinkDir = True"
| "hasListener Ready = False"
| "hasListener RawEvent = False"

text \<open>One event of the notifier: every open watcher emits it, and the listener
  registered for it, if any, runs.\<close>

definition emit :: "fsevent \<Rightarrow> watchWorld \<Rightarrow> watchWorld" where
  "emit ev w = (if hasListener ev then fold handleChange (openWatchers w) w else w)"

definition emitAll :: "fsevent list \<Rightarrow> watchWorld \<Rightarrow> watchWorld" where
  "emitAll evs w = fold emit evs w"

section \<open>Rendering (\<open>render/markdown.ts\<close>, \<open>render/highlight.ts\<close>)\<close>

subsection \<open>String replacement\<close>

text \<open>\<open>s.replace(/c/g, r)\<close> for a one-character pattern \<open>c\<close> and a replacement without
  \<open>$\<close>.\<close>

definition replaceChar :: "char \<Rightarrow> string \<Rightarrow> string \<Rightarrow> string" where
  "replaceChar c r s = concat (map (\<lambda>x. if x = c then r else [x]) s)"

text \<open>The three replacements \<open>&\<close>, \<open><\<close>, \<open>>\<close> that both fallbacks apply, in this order.\<close>

definition escapeHtml :: "string \<Rightarrow> string" where
  "escapeHtml s =
     replaceChar CHR ''>'' ''&gt;'' (replaceChar CHR ''<'' ''&lt;'' (replaceChar CHR ''&'' ''&amp;'' s))"

text \<open>The first occurrence of a pattern: what is before it and what is after it.\<close>

fun findSub :: "string \<Rightarrow> string \<Rightarrow> (string \<times> string) option" where
  "findSub pat [] = (if pat = [] then Some ([], []) else None)"
| "findSub pat (c # cs) =
     (if startsWith (c # cs) pat then Some ([], drop (length pat) (c # cs))
      else (case findSub pat cs of None \<Rightarrow> None | Some (b, a) \<Rightarrow> Some (c # b, a)))"

text \<open>
  \<open>String.prototype.replace\<close> with a string pattern and a string replacement reads
  the replacement as a template: \<open>$$\<close> is a dollar sign, \<open>$&\<close> the matched text,
  \<open>$`\<close> the text before the match, \<open>$'\<close> the text after it. There are no capture groups,
  so any other \<open>$\<close> stands for itself.
\<close>

fun getSubstitution :: "string \<Rightarrow> string \<Rightarrow> string \<Rightarrow> string \<Rightarrow> string" where
  "getSubstitution matched before after [] = []"
| "getSubstitution matched before after [c] = [c]"
| "getSubstitution matched before after (c # d # r) =
     (if c = CHR ''$'' \<and> d = CHR ''$'' then CHR ''$'' # getSubstitution matched before after r
      else if c = CHR ''$'' \<and> d = CHR ''&'' then matched @ getSubstitution matched before after r
      else if c = CHR ''$'' \<and> d = CHR 0x60 then before @ getSubstitution matched before after r
      else if c = CHR ''$'' \<and> d = CHR 0x27 then after @ getSubstitution matched before after r
      else c # getSubstitution matched before after (d # r))"

text \<open>\<open>s.replace(pattern, replacement)\<close>: the first occurrence only.\<close>

definition replaceFirst :: "string \<Rightarrow> string \<Rightarrow> string \<Rightarrow> string" where
  "replaceFirst s pat replacement =
     (case findSub pat s of
        None \<Rightarrow> s
      | Some (before, after) \<Rightarrow> before @ getSubstitution pat before after replacement @ after)"

subsection \<open>The structural pass\<close>

text \<open>Decimal digits of \<open>blockCounter\<close> in the template string.\<close>

fun showNat :: "nat \<Rightarrow> string" where
  "showNat n =
     (if n < 10 then [char_of (48 + n)] else showNat (n div 10) @ [char_of (48 + n mod 10)])"

declare showNat.simps [simp del]

text \<open>
  The parser of the \<open>marked\<close> library is not part of the repository. A document is
  given as what the parser walks over, in order: its code tokens (text and declared
  language, empty when there is none) and the HTML that the parser and the other
  renderers produce around them.
\<close>

datatype token = Code string string | Html string

record codeBlock =
  placeholder :: string
  code :: string
  lang :: string
  isMermaid :: bool

text \<open>The \<open>code\<close> renderer, on the pair \<open>(blockCounter, codeBlocks)\<close>.\<close>

definition renderCode ::
  "string \<Rightarrow> string \<Rightarrow> nat \<times> codeBlock list \<Rightarrow> string \<times> (nat \<times> codeBlock list)" where
  \<open>renderCode text lg st =
     (let language = (if lg = [] then ''plaintext'' else lg)
      in if toLowerCase language = ''mermaid'' then
           (let escaped = escapeHtml text
            in (''<pre class="mermaid-source" data-diagram="''
                  @ replaceChar (CHR 0x22) ''&quot;'' escaped @ ''">'' @ escaped @ ''</pre>'', st))
         else
           (case st of
              (blockCounter, codeBlocks) \<Rightarrow>
                (let ph = ''__CODE_BLOCK_'' @ showNat blockCounter @ ''__''
                 in (ph, (blockCounter + 1,
                          codeBlocks @ [\<lparr>placeholder = ph, code = text, lang = language,
                                         isMermaid = False\<rparr>])))))\<close>

fun parseTokens :: "token list \<Rightarrow> nat \<times> codeBlock list \<Rightarrow> string \<times> (nat \<times> codeBlock list)" where
  "parseTokens [] st = ([], st)"
| "parseTokens (Code text lg # ts) st =
     (case renderCode text lg st of
        (h, st1) \<Rightarrow> (case parseTokens ts st1 of (rest, st2) \<Rightarrow> (h @ rest, st2)))"
| "parseTokens (Html h # ts) st =
     (case parseTokens ts st of (rest, st1) \<Rightarrow> (h @ rest, st1))"

subsection \<open>The highlighting pass\<close>

text \<open>
  The highlighter of the \<open>shiki\<close> library is a parameter: the languages it has loaded
  and \<open>codeToHtml\<close>, which gives \<open>None\<close> when it throws. \<open>getHighlighter\<close> gives \<open>None\<close>
  when the creation of the highlighter is rejected; nothing catches that.
\<close>

record highlighter =
  loadedLanguages :: "string list"
  codeToHtml :: "string \<Rightarrow> string \<Rightarrow> string option"

definition highlightCode :: "highlighter option \<Rightarrow> string \<Rightarrow> string \<Rightarrow> error + string" where
  \<open>highlightCode getHighlighter cd lg =
     (case getHighlighter of
        None \<Rightarrow> Inl HighlighterRejected
      | Some h \<Rightarrow>
          (let language = (if List.member (loadedLanguages h) lg then lg else ''plaintext'')
           in case codeToHtml h cd language of
                Some html \<Rightarrow> Inr html
              | None \<Rightarrow>
                  Inr (''<pre><code class="language-'' @ language @ ''">'' @ escapeHtml cd
                         @ ''</code></pre>'')))\<close>

text \<open>The loop \<open>for (const block of codeBlocks)\<close> of \<open>renderMarkdown\<close>.\<close>

fun substituteBlocks :: "highlighter option \<Rightarrow> codeBlock list \<Rightarrow> string \<Rightarrow> error + string" where
  "substituteBlocks getHighlighter [] html = Inr html"
| "substituteBlocks getHighlighter (block # blocks) html =
     (case highlightCode getHighlighter (code block) (lang block) of
        Inl e \<Rightarrow> Inl e
      | Inr highlighted \<Rightarrow>
          substituteBlocks getHighlighter blocks (replaceFirst html (placeholder block) highlighted))"

definition renderMarkdown :: "highlighter option \<Rightarrow> token list \<Rightarrow> error + string" where
  "renderMarkdown getHighlighter markdown =
     (case parseTokens markdown (0, []) of
        (html, (blockCounter, codeBlocks)) \<Rightarrow> substituteBlocks getHighlighter codeBlocks html)"

section \<open>Properties of PathIdentity\<close>

text \<open>
  C7. The four example equations of \<open>resolveLink\<close>: \<open>../b.md\<close> seen from \<open>/a/c\<close> is \<open>/b\<close>,
  \<open>./d.md\<close> seen from \<open>/a/c\<close> is \<open>/a/d\<close>, and an external link and an anchor-only link
  are returned unchanged.
\<close>

theorem resolveLink_examples:
  "resolveLink ''../b.md'' ''/a/c'' = ''/b''
   \<and> resolveLink ''./d.md'' ''/a/c'' = ''/a/d''
   \<and> resolveLink ''https://x.com'' ''/a/c'' = ''https://x.com''
   \<and> resolveLink ''#sec'' ''/a/c'' = ''#sec''"
  by code_simp

lemma filePathToUrlPath_startsWith_slash: "startsWith (filePathToUrlPath p) ''/''"
  by (simp add: filePathToUrlPath_def startsWith_def Let_def)

lemma filePathToUrlPath_fixed:
  assumes "startsWith v ''/''" "\<not> endsMd v" "\<not> endsWith v ''/index''"
  shows "filePathToUrlPath v = v"
proof -
  have "v \<noteq> ''index''" using assms(1) by (auto simp: startsWith_def)
  then show ?thesis using assms by (simp add: filePathToUrlPath_def stripMd_def Let_def)
qed

text \<open>
  C8, as stated, fails: a directory named \<open>index\<close> that holds \<open>index.md\<close> has the URL path
  \<open>/index\<close>, and the conversion applied to \<open>/index\<close> gives \<open>/\<close>.
\<close>

theorem filePathToUrlPath_idempotent_counterexample:
  "filePathToUrlPath (filePathToUrlPath ''index/index.md'') \<noteq> filePathToUrlPath ''index/index.md''"
  by code_simp

text \<open>
  C8, amended. When the URL path of \<open>p\<close> has no \<open>.md\<close> suffix left (in any letter case)
  and does not end in \<open>/index\<close>, converting it again gives the same string.
\<close>

theorem filePathToUrlPath_idempotent:
  assumes "\<not> endsMd (filePathToUrlPath p)" and "\<not> endsWith (filePathToUrlPath p) ''/index''"
  shows "filePathToUrlPath (filePathToUrlPath p) = filePathToUrlPath p"
  using assms filePathToUrlPath_fixed filePathToUrlPath_startsWith_slash by blast

theorem filePathToUrlPath_idempotent_witness:
  "\<not> endsMd (filePathToUrlPath ''guides/index.md'')
   \<and> \<not> endsWith (filePathToUrlPath ''guides/index.md'') ''/index''
   \<and> filePathToUrlPath (filePathToUrlPath ''guides/index.md'') = ''/guides''"
proof -
  have a: "\<not> endsMd (filePathToUrlPath ''guides/index.md'')" by code_simp
  have b: "\<not> endsWith (filePathToUrlPath ''guides/index.md'') ''/index''" by code_simp
  have c: "filePathToUrlPath ''guides/index.md'' = ''/guides''" by code_simp
  from filePathToUrlPath_idempotent [OF a b] a b c show ?thesis by simp
qed

section \<open>Properties of the slug generation\<close>

lemma slugPass_Docs_first:
  "slugPass [[''Docs'', ''srv''], [''docs'', ''srv'']] [1, 1] = (True, [2, 2])"
  by code_simp

lemma slugPass_Docs_stuck:
  "slugPass [[''Docs'', ''srv''], [''docs'', ''srv'']] [2, 2] = (True, [2, 2])"
  by code_simp

text \<open>
  Both counts have reached the number of segments and the two slugs are still equal:
  every further pass reports a conflict and changes nothing, so the loop has no result
  from this state.
\<close>

lemma slugLoop_stuck:
  assumes "slugLoop ps cs = Some r"
  shows "\<not> (ps = [[''Docs'', ''srv''], [''docs'', ''srv'']] \<and> cs = [2, 2])"
proof (rule slugLoop.raw_induct
    [where P = "\<lambda>ps cs r. \<not> (ps = [[''Docs'', ''srv''], [''docs'', ''srv'']] \<and> cs = [2, 2])",
      OF _ assms])
  fix f ps' cs' r'
  assume ih: "\<And>ps cs r. f ps cs = Some r \<Longrightarrow>
      \<not> (ps = [[''Docs'', ''srv''], [''docs'', ''srv'']] \<and> cs = [2, 2])"
    and step: "(case slugPass ps' cs' of
        (hasConflicts, segmentCounts') \<Rightarrow>
          if hasConflicts then f ps' segmentCounts' else Some segmentCounts') = Some r'"
  show "\<not> (ps' = [[''Docs'', ''srv''], [''docs'', ''srv'']] \<and> cs' = [2, 2])"
  proof
    assume h: "ps' = [[''Docs'', ''srv''], [''docs'', ''srv'']] \<and> cs' = [2, 2]"
    with step have "f ps' cs' = Some r'" by (simp add: slugPass_Docs_stuck)
    with ih h show False by blast
  qed
qed

lemma slugLoop_Docs_None: "slugLoop [[''Docs'', ''srv''], [''docs'', ''srv'']] [1, 1] = None"
proof -
  have "slugLoop [[''Docs'', ''srv''], [''docs'', ''srv'']] [2, 2] = None"
    using slugLoop_stuck
    by (cases "slugLoop [[''Docs'', ''srv''], [''docs'', ''srv'']] [2, 2]") auto
  then show ?thesis
    by (subst slugLoop.simps) (simp add: slugPass_Docs_first del: One_nat_def)
qed

text \<open>
  C1. The claim is that \<open>generateUniqueSlugs\<close> returns on every list of paths, the paths
  that still collide with all their segments in use keeping their longest slug. On the
  two roots \<open>/srv/Docs\<close> and \<open>/srv/docs\<close> the code does not return: after both have been
  extended to \<open>srv-docs\<close> the loop sets \<open>hasConflicts\<close> on every pass and can extend
  nothing.
\<close>

theorem generateUniqueSlugs_does_not_return:
  "generateUniqueSlugs [''/srv/Docs'', ''/srv/docs''] = None"
proof -
  have "map pathSegmentsOf [''/srv/Docs'', ''/srv/docs'']
          = [[''Docs'', ''srv''], [''docs'', ''srv'']]"
    by code_simp
  then show ?thesis
    by (simp add: generateUniqueSlugs_def slugLoop_Docs_None del: One_nat_def)
qed

text \<open>Where a parent segment tells the paths apart, the loop returns and the slugs differ.\<close>

lemma generateUniqueSlugs_disambiguates:
  "\<exists>m. generateUniqueSlugs [''/a/docs'', ''/b/docs''] = Some m
       \<and> m ''/a/docs'' = Some ''a-docs'' \<and> m ''/b/docs'' = Some ''b-docs''"
proof -
  have s1: "pathSegmentsOf ''/a/docs'' = [''docs'', ''a'']" by code_simp
  have s2: "pathSegmentsOf ''/b/docs'' = [''docs'', ''b'']" by code_simp
  have p1: "slugPass [[''docs'', ''a''], [''docs'', ''b'']] [1, 1] = (True, [2, 2])"
    by code_simp
  have p2: "slugPass [[''docs'', ''a''], [''docs'', ''b'']] [2, 2] = (False, [2, 2])"
    by code_simp
  have l: "slugLoop [[''docs'', ''a''], [''docs'', ''b'']] [1, 1] = Some [2, 2]"
    by (subst slugLoop.simps, simp add: p1 del: One_nat_def, subst slugLoop.simps, simp add: p2)
  have c1: "currentSlug [''docs'', ''a''] 2 = ''a-docs''" by code_simp
  have c2: "currentSlug [''docs'', ''b''] 2 = ''b-docs''" by code_simp
  show ?thesis
    by (simp add: generateUniqueSlugs_def s1 s2 l c1 c2 del: One_nat_def)
qed

section \<open>Properties of the auth middleware\<close>

lemma splitOn_nonempty: "splitOn c s \<noteq> []"
  by (induction s) (auto split: list.splits)

lemma hd_splitOn: "hd (splitOn c s) = takeWhile (\<lambda>x. x \<noteq> c) s"
  by (induction s) (auto split: list.splits simp: splitOn_nonempty)

lemma splitOn_no_sep: "c \<notin> set s \<Longrightarrow> splitOn c s = [s]"
  by (induction s) auto

lemma splitOn_sep:
  "c \<in> set s \<Longrightarrow>
     splitOn c s = takeWhile (\<lambda>x. x \<noteq> c) s # splitOn c (tl (dropWhile (\<lambda>x. x \<noteq> c) s))"
  by (induction s) (auto split: list.splits simp: splitOn_nonempty)

lemma splitOn_second_piece:
  assumes "c \<in> set s"
  shows "2 \<le> length (splitOn c s)
     \<and> splitOn c s ! 1 = takeWhile (\<lambda>x. x \<noteq> c) (tl (dropWhile (\<lambda>x. x \<noteq> c) s))"
proof -
  let ?r = "tl (dropWhile (\<lambda>x. x \<noteq> c) s)"
  have "splitOn c ?r \<noteq> []" by (rule splitOn_nonempty)
  then have "1 \<le> length (splitOn c ?r)" by (cases "splitOn c ?r") auto
  moreover have "splitOn c s ! 1 = hd (splitOn c ?r)"
    using splitOn_sep [OF assms] splitOn_nonempty [of c ?r] by (simp add: hd_conv_nth)
  ultimately show ?thesis using splitOn_sep [OF assms] by (simp add: hd_splitOn)
qed

text \<open>
  C9. When the credentials string is present but has no colon, or nothing before its
  first colon (an empty username), or nothing between its first colon and the next
  colon or the end (an empty password part), the middleware is the one that calls
  \<open>next\<close> on every request, whatever \<open>Authorization\<close> header the request has or lacks.
\<close>

theorem createAuthMiddleware_malformed_disabled:
  assumes "CHR '':'' \<notin> set c
           \<or> takeWhile (\<lambda>x. x \<noteq> CHR '':'') c = []
           \<or> takeWhile (\<lambda>x. x \<noteq> CHR '':'') (tl (dropWhile (\<lambda>x. x \<noteq> CHR '':'') c)) = []"
  shows "snd (createAuthMiddleware btoa (Some c)) = (\<lambda>authHeader. NextCalled)"
proof (cases "CHR '':'' \<in> set c")
  case False
  then show ?thesis
    by (simp add: createAuthMiddleware_def splitOn_no_sep Let_def)
next
  case True
  with assms splitOn_second_piece [OF True] show ?thesis
    by (auto simp: createAuthMiddleware_def Let_def hd_splitOn)
qed

theorem createAuthMiddleware_malformed_disabled_witness:
  "CHR '':'' \<notin> set ''admin''
   \<and> snd (createAuthMiddleware (\<lambda>s. s) (Some ''admin'')) None = NextCalled
   \<and> takeWhile (\<lambda>x. x \<noteq> CHR '':'') '':secret'' = []
   \<and> snd (createAuthMiddleware (\<lambda>s. s) (Some '':secret'')) None = NextCalled
   \<and> takeWhile (\<lambda>x. x \<noteq> CHR '':'') (tl (dropWhile (\<lambda>x. x \<noteq> CHR '':'') ''admin:'')) = []
   \<and> snd (createAuthMiddleware (\<lambda>s. s) (Some ''admin:'')) None = NextCalled"
proof -
  have a: "CHR '':'' \<notin> set ''admin''" by simp
  have b: "takeWhile (\<lambda>x. x \<noteq> CHR '':'') '':secret'' = []" by simp
  have c: "takeWhile (\<lambda>x. x \<noteq> CHR '':'') (tl (dropWhile (\<lambda>x. x \<noteq> CHR '':'') ''admin:'')) = []"
    by simp
  show ?thesis
    using a b c
      createAuthMiddleware_malformed_disabled [of "''admin''" "\<lambda>s. s", OF disjI1, OF a]
      createAuthMiddleware_malformed_disabled [of "'':secret''" "\<lambda>s. s", OF disjI2, OF disjI1, OF b]
      createAuthMiddleware_malformed_disabled [of "''admin:''" "\<lambda>s. s", OF disjI2, OF disjI2, OF c]
    by simp
qed

text \<open>Well-formed credentials do switch the check on.\<close>

lemma createAuthMiddleware_wellformed_enforced:
  "snd (createAuthMiddleware btoa (Some ''admin:secret'')) None = Unauthorized"
  by (simp add: createAuthMiddleware_def Let_def)

section \<open>Properties of watching\<close>

lemma fold_handleChange:
  "openWatchers (fold handleChange cbs w) = openWatchers w
   \<and> called (fold handleChange cbs w) = called w @ cbs"
  by (induction cbs arbitrary: w) (simp_all add: handleChange_def)

lemma emit_openWatchers: "openWatchers (emit ev w) = openWatchers w"
  by (simp add: emit_def fold_handleChange)

lemma emit_called:
  "called (emit ev w) = called w @ (if hasListener ev then openWatchers w else [])"
  by (simp add: emit_def fold_handleChange)

lemma fold_emit_called:
  "openWatchers w = [callback] \<Longrightarrow>
     openWatchers (fold emit evs w) = [callback]
     \<and> called (fold emit evs w) = called w @ replicate (length (filter hasListener evs)) callback"
proof (induction evs arbitrary: w)
  case Nil
  then show ?case by simp
next
  case (Cons ev evs)
  from Cons.prems have "openWatchers (emit ev w) = [callback]" by (simp add: emit_openWatchers)
  from Cons.IH [OF this] Cons.prems show ?case
    by (simp add: emit_called replicate_app_Cons_same)
qed

text \<open>
  C2, as stated, fails: the handler of \<open>watch\<close> calls the callback itself, with no timer
  and no pending flag, so a burst of two events calls it twice.
\<close>

theorem burst_single_notification_counterexample:
  "length (called (emitAll [Add, Change]
     (watch 0 \<lparr>source = \<lparr>rootPath = ''/docs'', pathMap = Map.empty, navTree = None,
                           siteTitle = None, watcher = False\<rparr>,
               openWatchers = [], called = []\<rparr>))) \<noteq> 1"
  by (simp add: emitAll_def emit_def watch_def handleChange_def)

text \<open>
  C2, amended. With the one watcher that \<open>watch(onChange)\<close> has installed, every add,
  change, unlink, addDir or unlinkDir event invokes \<open>onChange\<close> once: a burst of such
  events invokes it once per event, as many times as the burst has events, and nothing
  else is called.
\<close>

theorem emitAll_one_call_per_event:
  assumes "openWatchers w = [callback]"
  shows "called (emitAll evs w)
           = called w @ replicate (length (filter hasListener evs)) callback"
  using fold_emit_called [OF assms, of evs] by (simp add: emitAll_def)

theorem emitAll_one_call_per_event_witness:
  "openWatchers (watch 0 \<lparr>source = \<lparr>rootPath = ''/docs'', pathMap = Map.empty, navTree = None,
                                      siteTitle = None, watcher = False\<rparr>,
                          openWatchers = [], called = []\<rparr>) = [0]
   \<and> called (emitAll [Add, Change, Unlink]
        (watch 0 \<lparr>source = \<lparr>rootPath = ''/docs'', pathMap = Map.empty, navTree = None,
                              siteTitle = None, watcher = False\<rparr>,
                  openWatchers = [], called = []\<rparr>)) = [0, 0, 0]"
proof -
  let ?w = "watch 0 \<lparr>source = \<lparr>rootPath = ''/docs'', pathMap = Map.empty, navTree = None,
                                siteTitle = None, watcher = False\<rparr>,
                    openWatchers = [], called = []\<rparr>"
  have o: "openWatchers ?w = [0]" by (simp add: watch_def)
  have c: "called ?w = []" by (simp add: watch_def)
  from emitAll_one_call_per_event [OF o, of "[Add, Change, Unlink]"] o c show ?thesis
    by (simp add: numeral_3_eq_3)
qed

text \<open>Every run of the handler clears the cached tree and title, so the \<open>getTree\<close> after
  an event with a listener is a rescan.\<close>

lemma handleChange_clears_cache:
  "navTree (source (handleChange callback w)) = None
   \<and> siteTitle (source (handleChange callback w)) = None"
  by (simp add: handleChange_def)

lemma fold_handleChange_clears_cache:
  "cbs \<noteq> [] \<Longrightarrow> navTree (source (fold handleChange cbs w)) = None
     \<and> siteTitle (source (fold handleChange cbs w)) = None"
proof (induction cbs arbitrary: w rule: rev_induct)
  case Nil
  then show ?case by simp
next
  case (snoc cb cbs)
  show ?case by (simp add: handleChange_def)
qed

lemma emit_clears_cache:
  "hasListener ev \<Longrightarrow> openWatchers w \<noteq> [] \<Longrightarrow>
     navTree (source (emit ev w)) = None \<and> siteTitle (source (emit ev w)) = None"
  by (simp add: emit_def fold_handleChange_clears_cache)

text \<open>A second \<open>watch\<close> without \<open>unwatch\<close> leaves the first watcher open: both callbacks
  run on an event, and \<open>unwatch\<close> closes the second watcher only.\<close>

lemma second_watch_keeps_first:
  "called (emitAll [Change]
     (watch 1 (watch 0 \<lparr>source = \<lparr>rootPath = ''/docs'', pathMap = Map.empty, navTree = None,
                                    siteTitle = None, watcher = False\<rparr>,
                        openWatchers = [], called = []\<rparr>))) = [0, 1]
   \<and> called (emitAll [Change]
     (unwatch (watch 1 (watch 0 \<lparr>source = \<lparr>rootPath = ''/docs'', pathMap = Map.empty,
                                             navTree = None, siteTitle = None, watcher = False\<rparr>,
                                 openWatchers = [], called = []\<rparr>)))) = [0]"
  by (simp add: emitAll_def emit_def watch_def unwatch_def handleChange_def)

section \<open>Properties of the navigation index\<close>

lemma set_insertNode: "set (insertNode lc a xs) = insert a (set xs)"
  by (induction xs) auto

lemma set_sortNodes: "set (sortNodes lc xs) = set xs"
  by (induction xs) (auto simp: sortNodes_def set_insertNode)

lemma set_fileNodes:
  "set (fileNodes xs) = {n. type n = FileNode \<and> (\<exists>t \<in> set xs. n \<in> set (allNodes t))}"
  by (auto simp: fileNodes_def)

lemma set_fileNodes_sortNodes: "set (fileNodes (sortNodes lc xs)) = set (fileNodes xs)"
  by (simp add: set_fileNodes set_sortNodes)

lemma fileNodes_append: "fileNodes (xs @ ys) = fileNodes xs @ fileNodes ys"
  by (simp add: fileNodes_def)

lemma fileNodes_Nil: "fileNodes [] = []"
  by (simp add: fileNodes_def)

lemma fileNodes_directory: "fileNodes [NavNode n p DirectoryNode cs ord] = fileNodes cs"
  by (simp add: fileNodes_def)

lemma fileNodes_file:
  "fileNodes (NavNode n p FileNode [] ord # xs) = NavNode n p FileNode [] ord # fileNodes xs"
  by (simp add: fileNodes_def)

lemma entriesBelow_rest:
  "set (entriesBelow d rel rest) \<subseteq> set (entriesBelow d rel ((nm, node) # rest))"
  by (cases node) auto

lemma entriesBelow_head:
  "(join d nm, entryRelativePath rel nm, nm, node) \<in> set (entriesBelow d rel ((nm, node) # rest))"
  by (cases node) auto

lemma entriesBelow_sub:
  "set (entriesOf (join d nm) (entryRelativePath rel nm) node)
     \<subseteq> set (entriesBelow d rel ((nm, node) # rest))"
  by (cases node) auto

lemma registerPath_cases:
  "registerPath n u p pm k = Some v \<Longrightarrow> pm k = Some v \<or> (k = u \<and> v = p)"
  by (auto simp: registerPath_def Let_def split: if_splits)

lemma scan_pathMap:
  "scanDirectory matter lc d rel node pm ms = (res, pm', ms') \<Longrightarrow> pm' k = Some v \<Longrightarrow>
     pm k = Some v \<or> (\<exists>e \<in> set (entriesOf d rel node).
        isDocument e \<and> fst e = v \<and> k = filePathToUrlPath (fst (snd e)))"
  "scanEntries matter lc d rel entries pm ms = (res, pm', ms') \<Longrightarrow> pm' k = Some v \<Longrightarrow>
     pm k = Some v \<or> (\<exists>e \<in> set (entriesBelow d rel entries).
        isDocument e \<and> fst e = v \<and> k = filePathToUrlPath (fst (snd e)))"
proof (induction matter lc d rel node pm ms and matter lc d rel entries pm ms
    arbitrary: res pm' ms' and res pm' ms' rule: scanDirectory_scanEntries.induct)
  case (1 matter lc dirPath relativePath entries pm ms)
  then show ?case by (auto split: prod.splits sum.splits)
next
  case (2 matter lc dirPath relativePath pm ms)
  then show ?case by simp
next
  case (3 matter lc dirPath relativePath c pm ms)
  then show ?case by simp
next
  case (4 matter lc dirPath relativePath c pm ms)
  then show ?case by simp
next
  case (5 matter lc dirPath relativePath pm ms)
  then show ?case by simp
next
  case (6 matter lc d rel nm node rest pm ms)
  let ?E = "entriesBelow d rel ((nm, node) # rest)"
  let ?doc = "\<lambda>E. \<exists>e \<in> set E. isDocument e \<and> fst e = v \<and> k = filePathToUrlPath (fst (snd e))"
  have rest_doc: "?doc (entriesBelow d rel rest) \<Longrightarrow> ?doc ?E"
    using entriesBelow_rest [of d rel rest nm node] by blast
  have sub_doc: "?doc (entriesOf (join d nm) (entryRelativePath rel nm) node) \<Longrightarrow> ?doc ?E"
    using entriesBelow_sub [of d nm rel node rest] by blast
  show ?case
  proof (cases "startsWith nm ''.''")
    case True
    with "6.prems" have "scanEntries matter lc d rel rest pm ms = (res, pm', ms')" by simp
    from "6.IH"(1) [OF True this "6.prems"(2)] rest_doc show ?thesis by blast
  next
    case hidden: False
    show ?thesis
    proof (cases "isDirectory node")
      case True
      obtain x y z where xy:
        "scanDirectory matter lc (join d nm) (entryRelativePath rel nm) node pm ms = (x, y, z)"
        by (metis prod_cases3)
      show ?thesis
      proof (cases x)
        case (Inl e)
        with "6.prems"(1) hidden True xy have "pm' = y" by simp
        with "6.IH"(2) [OF hidden True xy] "6.prems"(2) sub_doc show ?thesis by blast
      next
        case (Inr b)
        obtain x2 y2 z2 where xy2: "scanEntries matter lc d rel rest y z = (x2, y2, z2)"
          by (metis prod_cases3)
        from "6.prems"(1) hidden True xy Inr xy2 have "pm' = y2"
          by (auto split: sum.splits)
        with "6.IH"(3) [OF hidden True xy [symmetric] Inr refl xy2] "6.prems"(2)
        have "y k = Some v \<or> ?doc (entriesBelow d rel rest)" by blast
        with "6.IH"(2) [OF hidden True xy] rest_doc sub_doc show ?thesis by blast
      qed
    next
      case notdir: False
      show ?thesis
      proof (cases "isFile node \<and> toLowerCase (extname nm) = ''.md''")
        case True
        let ?pm1 = "registerPath (basename nm ''.md'')
                      (filePathToUrlPath (entryRelativePath rel nm)) (join d nm) pm"
        obtain content z where pc: "parseFileContent matter (fileText node) ms = (content, z)"
          by fastforce
        obtain x2 y2 z2 where xy2: "scanEntries matter lc d rel rest ?pm1 z = (x2, y2, z2)"
          by (metis prod_cases3)
        from "6.prems"(1) hidden notdir True pc xy2 have "pm' = y2"
          by (auto simp: Let_def split: sum.splits)
        with "6.IH"(4) [OF hidden notdir True pc [symmetric] refl refl refl xy2] "6.prems"(2)
        have "?pm1 k = Some v \<or> ?doc (entriesBelow d rel rest)" by blast
        moreover have "isDocument (join d nm, entryRelativePath rel nm, nm, node)"
          using True by (simp add: isDocument_def)
        then have "k = filePathToUrlPath (entryRelativePath rel nm) \<and> v = join d nm \<Longrightarrow> ?doc ?E"
          using entriesBelow_head [of d nm rel node rest] by force
        ultimately show ?thesis using registerPath_cases [of _ _ _ pm k v] rest_doc by blast
      next
        case False
        with "6.prems" hidden notdir
        have "scanEntries matter lc d rel rest pm ms = (res, pm', ms')" by auto
        from "6.IH"(5) [OF hidden notdir False this "6.prems"(2)] rest_doc show ?thesis by blast
      qed
    qed
  qed
qed

lemma scan_fileNodes:
  "scanDirectory matter lc d rel node pm ms = (Inr nodes, pm', ms') \<Longrightarrow>
     n \<in> set (fileNodes nodes) \<Longrightarrow>
     \<exists>e \<in> set (entriesOf d rel node). isDocument e \<and> path n = filePathToUrlPath (fst (snd e))"
  "scanEntries matter lc d rel entries pm ms = (Inr nodes, pm', ms') \<Longrightarrow>
     n \<in> set (fileNodes nodes) \<Longrightarrow>
     \<exists>e \<in> set (entriesBelow d rel entries). isDocument e \<and> path n = filePathToUrlPath (fst (snd e))"
proof (induction matter lc d rel node pm ms and matter lc d rel entries pm ms
    arbitrary: nodes pm' ms' and nodes pm' ms' rule: scanDirectory_scanEntries.induct)
  case (1 matter lc dirPath relativePath entries pm ms)
  from "1.prems"(1) obtain nodes0 where
    s: "scanEntries matter lc dirPath relativePath entries pm ms = (Inr nodes0, pm', ms')"
    and n: "nodes = sortNodes lc nodes0"
    by (auto split: prod.splits sum.splits)
  from "1.prems"(2) n have "n \<in> set (fileNodes nodes0)" by (simp add: set_fileNodes_sortNodes)
  from "1.IH" [OF s this] show ?case by simp
next
  case (2 matter lc dirPath relativePath pm ms)
  then show ?case by simp
next
  case (3 matter lc dirPath relativePath c pm ms)
  then show ?case by simp
next
  case (4 matter lc dirPath relativePath c pm ms)
  then show ?case by simp
next
  case (5 matter lc dirPath relativePath pm ms)
  then show ?case by (simp add: fileNodes_Nil)
next
  case (6 matter lc d rel nm node rest pm ms)
  let ?E = "entriesBelow d rel ((nm, node) # rest)"
  let ?doc = "\<lambda>E. \<exists>e \<in> set E. isDocument e \<and> path n = filePathToUrlPath (fst (snd e))"
  have rest_doc: "?doc (entriesBelow d rel rest) \<Longrightarrow> ?doc ?E"
    using entriesBelow_rest [of d rel rest nm node] by blast
  have sub_doc: "?doc (entriesOf (join d nm) (entryRelativePath rel nm) node) \<Longrightarrow> ?doc ?E"
    using entriesBelow_sub [of d nm rel node rest] by blast
  show ?case
  proof (cases "startsWith nm ''.''")
    case True
    with "6.prems" have "scanEntries matter lc d rel rest pm ms = (Inr nodes, pm', ms')" by simp
    from "6.IH"(1) [OF True this "6.prems"(2)] rest_doc show ?thesis by blast
  next
    case hidden: False
    show ?thesis
    proof (cases "isDirectory node")
      case True
      obtain x y z where xy:
        "scanDirectory matter lc (join d nm) (entryRelativePath rel nm) node pm ms = (x, y, z)"
        by (metis prod_cases3)
      with "6.prems"(1) hidden True obtain b where b: "x = Inr b"
        by (cases x) auto
      obtain x2 y2 z2 where xy2: "scanEntries matter lc d rel rest y z = (x2, y2, z2)"
        by (metis prod_cases3)
      with "6.prems"(1) hidden True xy b obtain nodes2 where n2: "x2 = Inr nodes2"
        by (cases x2) auto
      from "6.prems"(1) hidden True xy b xy2 n2
      have nodes: "nodes = (if b \<noteq> [] then [NavNode (humanize nm) (''/'' @ entryRelativePath rel nm)
                                 DirectoryNode b None] else []) @ nodes2"
        by auto
      with "6.prems"(2) have "n \<in> set (fileNodes b) \<or> n \<in> set (fileNodes nodes2)"
        by (auto simp: fileNodes_append fileNodes_directory fileNodes_Nil split: if_splits)
      then show ?thesis
      proof
        assume "n \<in> set (fileNodes b)"
        from "6.IH"(2) [OF hidden True xy [unfolded b] this] sub_doc show ?thesis by blast
      next
        assume "n \<in> set (fileNodes nodes2)"
        from "6.IH"(3) [OF hidden True xy [symmetric] b refl xy2 [unfolded n2] this] rest_doc
        show ?thesis by blast
      qed
    next
      case notdir: False
      show ?thesis
      proof (cases "isFile node \<and> toLowerCase (extname nm) = ''.md''")
        case True
        let ?pm1 = "registerPath (basename nm ''.md'')
                      (filePathToUrlPath (entryRelativePath rel nm)) (join d nm) pm"
        obtain content z where pc: "parseFileContent matter (fileText node) ms = (content, z)"
          by fastforce
        obtain x2 y2 z2 where xy2: "scanEntries matter lc d rel rest ?pm1 z = (x2, y2, z2)"
          by (metis prod_cases3)
        with "6.prems"(1) hidden notdir True pc obtain nodes2 where n2: "x2 = Inr nodes2"
          by (cases x2) (auto simp: Let_def)
        from "6.prems"(1) hidden notdir True pc xy2 n2
        have nodes: "nodes = NavNode (nodeName content (basename nm ''.md''))
                        (filePathToUrlPath (entryRelativePath rel nm)) FileNode []
                        (nodeOrder content) # nodes2"
          by (auto simp: Let_def)
        with "6.prems"(2)
        have "path n = filePathToUrlPath (entryRelativePath rel nm) \<or> n \<in> set (fileNodes nodes2)"
          by (auto simp: fileNodes_file)
        then show ?thesis
        proof
          assume p: "path n = filePathToUrlPath (entryRelativePath rel nm)"
          have "isDocument (join d nm, entryRelativePath rel nm, nm, node)"
            using True by (simp add: isDocument_def)
          with p entriesBelow_head [of d nm rel node rest] show ?thesis by force
        next
          assume "n \<in> set (fileNodes nodes2)"
          from "6.IH"(4) [OF hidden notdir True pc [symmetric] refl refl refl xy2 [unfolded n2] this]
            rest_doc
          show ?thesis by blast
        qed
      next
        case False
        with "6.prems" hidden notdir
        have "scanEntries matter lc d rel rest pm ms = (Inr nodes, pm', ms')" by auto
        from "6.IH"(5) [OF hidden notdir False this "6.prems"(2)] rest_doc show ?thesis by blast
      qed
    qed
  qed
qed

text \<open>
  C10. A rescan (\<open>getTree\<close> on a state whose cached tree has been cleared) leaves a path
  table in which every value is the path of an entry of the tree below the root that
  passed the test \<open>isFile()\<close> and extension \<open>.md\<close> in any letter case, under the URL path
  of that entry; and every file node of the tree it returns, at any depth, has the URL
  path of such an entry. Nothing else (a \<open>.txt\<close> or \<open>.png\<close> file, a file without
  extension, an entry that is not a regular file) is registered or shown. This holds
  for every state the rescan starts from and every filesystem it reads, so every
  rescan re-establishes it.
\<close>

theorem getTree_only_documents:
  assumes "navTree st = None"
  shows "(\<forall>k v. pathMap (fst (snd (getTree matter lc fs st ms))) k = Some v \<longrightarrow>
            (\<exists>e \<in> set (rootEntries fs (rootPath st)).
               isDocument e \<and> fst e = v \<and> k = filePathToUrlPath (fst (snd e))))
       \<and> (\<forall>tree n. fst (getTree matter lc fs st ms) = Inr tree \<longrightarrow> n \<in> set (fileNodes tree) \<longrightarrow>
            (\<exists>e \<in> set (rootEntries fs (rootPath st)).
               isDocument e \<and> path n = filePathToUrlPath (fst (snd e))))"
proof (cases "stat fs (rootPath st)")
  case None
  with assms show ?thesis by (simp add: getTree_def)
next
  case (Some node)
  obtain x pm z where sc: "scanDirectory matter lc (rootPath st) [] node Map.empty ms = (x, pm, z)"
    by (metis prod_cases3)
  have pm: "pathMap (fst (snd (getTree matter lc fs st ms))) = pm"
    using assms Some sc by (cases x) (simp_all add: getTree_def)
  have re: "rootEntries fs (rootPath st) = entriesOf (rootPath st) [] node"
    using Some by (simp add: rootEntries_def)
  have tr: "fst (getTree matter lc fs st ms) = Inr tree \<Longrightarrow> x = Inr tree" for tree
    using assms Some sc by (cases x) (simp_all add: getTree_def)
  show ?thesis
  proof (intro conjI allI impI)
    fix k v
    assume "pathMap (fst (snd (getTree matter lc fs st ms))) k = Some v"
    with pm have "pm k = Some v" by simp
    from scan_pathMap(1) [OF sc this] re
    show "\<exists>e \<in> set (rootEntries fs (rootPath st)).
            isDocument e \<and> fst e = v \<and> k = filePathToUrlPath (fst (snd e))"
      by simp
  next
    fix tree n
    assume t: "fst (getTree matter lc fs st ms) = Inr tree" and n: "n \<in> set (fileNodes tree)"
    from t have "x = Inr tree" by (rule tr)
    from scan_fileNodes(1) [OF sc [unfolded this] n] re
    show "\<exists>e \<in> set (rootEntries fs (rootPath st)).
            isDocument e \<and> path n = filePathToUrlPath (fst (snd e))"
      by simp
  qed
qed

theorem getTree_only_documents_witness:
  "navTree \<lparr>rootPath = ''/docs'', pathMap = Map.empty, navTree = None, siteTitle = None,
             watcher = False\<rparr> = None
   \<and> fst (getTree (\<lambda>text ms. (Some (\<lparr>title = None, order = None\<rparr>, text), ms)) (\<lambda>a b. 0)
          (Dir [(''docs'', Dir [(''notes.md'', RegularFile (Some ''Notes'')),
                                (''todo.txt'', RegularFile (Some ''x'')),
                                (''logo.png'', RegularFile None),
                                (''LICENSE'', RegularFile (Some ''MIT''))])])
          \<lparr>rootPath = ''/docs'', pathMap = Map.empty, navTree = None, siteTitle = None,
             watcher = False\<rparr> ())
       = Inr [NavNode ''Notes'' ''/notes'' FileNode [] None]
   \<and> (\<exists>e \<in> set (rootEntries
                   (Dir [(''docs'', Dir [(''notes.md'', RegularFile (Some ''Notes'')),
                                         (''todo.txt'', RegularFile (Some ''x'')),
                                         (''logo.png'', RegularFile None),
                                         (''LICENSE'', RegularFile (Some ''MIT''))])])
                   ''/docs'').
          isDocument e \<and> fst e = ''/docs/notes.md'' \<and> ''/notes'' = filePathToUrlPath (fst (snd e)))"
proof -
  let ?m = "\<lambda>text (ms :: unit). (Some (\<lparr>title = None, order = None\<rparr>, text), ms)"
  let ?lc = "\<lambda>a b. 0 :: int"
  let ?fs = "Dir [(''docs'', Dir [(''notes.md'', RegularFile (Some ''Notes'')),
                                (''todo.txt'', RegularFile (Some ''x'')),
                                (''logo.png'', RegularFile None),
                                (''LICENSE'', RegularFile (Some ''MIT''))])]"
  let ?st = "\<lparr>rootPath = ''/docs'', pathMap = Map.empty, navTree = None, siteTitle = None,
             watcher = False\<rparr>"
  have h: "navTree ?st = None" by simp
  have t: "fst (getTree ?m ?lc ?fs ?st ()) = Inr [NavNode ''Notes'' ''/notes'' FileNode [] None]"
    by code_simp
  have p: "pathMap (fst (snd (getTree ?m ?lc ?fs ?st ()))) ''/notes'' = Some ''/docs/notes.md''"
    by code_simp
  have r: "rootPath ?st = ''/docs''" by simp
  from getTree_only_documents [OF h, of ?m ?lc ?fs "()"] p
  have "\<exists>e \<in> set (rootEntries ?fs (rootPath ?st)).
          isDocument e \<and> fst e = ''/docs/notes.md'' \<and> ''/notes'' = filePathToUrlPath (fst (snd e))"
    by blast
  with h t r show ?thesis by simp
qed

text \<open>The other files of that directory are not in the table.\<close>

lemma getTree_other_files_unregistered:
  "pathMap (fst (snd (getTree (\<lambda>text ms. (Some (\<lparr>title = None, order = None\<rparr>, text), ms))
          (\<lambda>a b. 0)
          (Dir [(''docs'', Dir [(''notes.md'', RegularFile (Some ''Notes'')),
                                (''todo.txt'', RegularFile (Some ''x'')),
                                (''logo.png'', RegularFile None),
                                (''LICENSE'', RegularFile (Some ''MIT''))])])
          \<lparr>rootPath = ''/docs'', pathMap = Map.empty, navTree = None, siteTitle = None,
             watcher = False\<rparr> ()))) k = None"
  if "k \<in> {''/todo.txt'', ''/todo'', ''/logo.png'', ''/logo'', ''/LICENSE''}"
  using that by (elim insertE emptyE; hypsubst; code_simp)

section \<open>Properties of content resolution\<close>

lemma join_nonempty: "join a b \<noteq> []"
  by (simp add: join_def normalize_def Let_def)

lemma firstFallback_None_iff:
  "firstFallback fs d fbs = None \<longleftrightarrow> (\<forall>f \<in> set fbs. stat fs (join d f) = None)"
  by (induction fbs) (auto split: option.splits)

lemma firstFallback_Some_nonempty: "firstFallback fs d fbs = Some p \<Longrightarrow> p \<noteq> []"
  by (induction fbs) (auto split: option.splits simp: join_nonempty)

lemma readFileContent_None_iff:
  "fst (readFileContent matter fs p ms) = None \<longleftrightarrow>
     readFile fs p = None \<or> (\<exists>text. readFile fs p = Some text \<and> fst (matter text ms) = None)"
  by (auto simp: readFileContent_def parseFileContent_def split: option.splits prod.splits)

lemma resolveFilePath_falsy:
  assumes "falsy (resolveFilePath fs st np)"
  shows "falsy (pathMap st np)
     \<and> (np \<noteq> ''/'' \<longrightarrow> falsy (pathMap st (np @ ''/'')))
     \<and> (\<forall>stats. stat fs (if np = ''/'' then rootPath st else join (rootPath st) (drop 1 np)) = Some stats
           \<longrightarrow> isDirectory stats
           \<longrightarrow> (\<forall>f \<in> set fallbacks.
                  stat fs (join (if np = ''/'' then rootPath st else join (rootPath st) (drop 1 np)) f) = None))"
proof -
  let ?d = "if np = ''/'' then rootPath st else join (rootPath st) (drop 1 np)"
  let ?fp1 = "if falsy (pathMap st np) \<and> np \<noteq> ''/'' then pathMap st (np @ ''/'') else pathMap st np"
  have f1: "falsy ?fp1"
  proof (rule ccontr)
    assume "\<not> falsy ?fp1"
    then have "resolveFilePath fs st np = ?fp1" by (simp add: resolveFilePath_def Let_def)
    with assms \<open>\<not> falsy ?fp1\<close> show False by simp
  qed
  then have a: "falsy (pathMap st np)" by (auto split: if_splits)
  with f1 have b: "np \<noteq> ''/'' \<longrightarrow> falsy (pathMap st (np @ ''/''))" by (auto split: if_splits)
  have c: "firstFallback fs ?d fallbacks = None" if "stat fs ?d = Some stats" "isDirectory stats" for stats
  proof (cases "firstFallback fs ?d fallbacks")
    case None
    then show ?thesis .
  next
    case (Some p)
    with f1 that have "resolveFilePath fs st np = Some p"
      by (simp add: resolveFilePath_def Let_def)
    with assms firstFallback_Some_nonempty [OF Some] show ?thesis by (simp add: falsy_def)
  qed
  from a b c show ?thesis by (auto simp: firstFallback_None_iff)
qed

text \<open>
  C4, as stated, fails: \<open>getContent\<close> first awaits \<open>getTree\<close>, and nothing catches what
  \<open>readdir\<close> throws during the scan. With a subdirectory that cannot be listed, every
  \<open>getContent\<close> raises.
\<close>

theorem getContent_raises_counterexample:
  "fst (getContent (\<lambda>text ms. (Some (\<lparr>title = None, order = None\<rparr>, text), ms)) (\<lambda>a b. 0)
          (Dir [(''docs'', Dir [(''index.md'', RegularFile (Some ''Home'')),
                                (''private'', UnlistableDir)])])
          ''/''
          \<lparr>rootPath = ''/docs'', pathMap = Map.empty, navTree = None, siteTitle = None,
             watcher = False\<rparr> ())
   = Inl ReaddirFailed"
  by code_simp

text \<open>
  C4, amended. Whenever the scan of the tree succeeds (or the tree is cached),
  \<open>getContent\<close> returns without raising, for every \<open>urlPath\<close>. It returns \<open>null\<close> exactly
  when no file path was resolved, or reading the resolved file fails, or the call of
  \<open>matter\<close> that \<open>getContent\<close> makes on its text throws. No file path is resolved only
  when the direct lookup in the path table, the lookup with a trailing slash (not tried
  for \<open>/\<close>) and, if the path names an existing directory, \<open>stat\<close> on each of \<open>index.md\<close>,
  \<open>README.md\<close>, \<open>overview.md\<close> in it have all failed.
\<close>

theorem getContent_after_scan:
  assumes "fst (getTree matter lc fs st ms) = Inr tree"
  shows "let st1 = fst (snd (getTree matter lc fs st ms));
             ms1 = snd (snd (getTree matter lc fs st ms));
             np = (if urlPath = [] then ''/'' else urlPath);
             dirPath = (if np = ''/'' then rootPath st1 else join (rootPath st1) (drop 1 np));
             filePath = resolveFilePath fs st1 np
         in (\<exists>res ms2. getContent matter lc fs urlPath st ms = (Inr res, st1, ms2)
               \<and> (res = None \<longleftrightarrow>
                    falsy filePath \<or> readFile fs (the filePath) = None
                    \<or> (\<exists>text. readFile fs (the filePath) = Some text
                               \<and> fst (matter text ms1) = None)))
            \<and> (falsy filePath \<longrightarrow>
                  falsy (pathMap st1 np)
                  \<and> (np \<noteq> ''/'' \<longrightarrow> falsy (pathMap st1 (np @ ''/'')))
                  \<and> (\<forall>stats. stat fs dirPath = Some stats \<longrightarrow> isDirectory stats \<longrightarrow>
                        (\<forall>f \<in> set fallbacks. stat fs (join dirPath f) = None)))"
proof -
  obtain st1 ms1 where g: "getTree matter lc fs st ms = (Inr tree, st1, ms1)"
    using assms by (cases "getTree matter lc fs st ms") auto
  then have s: "fst (snd (getTree matter lc fs st ms)) = st1"
    and m: "snd (snd (getTree matter lc fs st ms)) = ms1" by simp_all
  let ?np = "if urlPath = [] then ''/'' else urlPath"
  let ?fp = "resolveFilePath fs st1 ?np"
  have c1: "\<exists>res ms2. getContent matter lc fs urlPath st ms = (Inr res, st1, ms2)
               \<and> (res = None \<longleftrightarrow>
                    falsy ?fp \<or> readFile fs (the ?fp) = None
                    \<or> (\<exists>text. readFile fs (the ?fp) = Some text \<and> fst (matter text ms1) = None))"
  proof (cases "falsy ?fp")
    case True
    with g show ?thesis by (simp add: getContent_def Let_def)
  next
    case False
    obtain content ms2 where r: "readFileContent matter fs (the ?fp) ms1 = (content, ms2)"
      by fastforce
    with g False have "getContent matter lc fs urlPath st ms = (Inr content, st1, ms2)"
      by (simp add: getContent_def Let_def)
    moreover from r have "fst (readFileContent matter fs (the ?fp) ms1) = content" by simp
    ultimately show ?thesis using False readFileContent_None_iff [of matter fs "the ?fp" ms1]
      by auto
  qed
  from c1 resolveFilePath_falsy [of fs st1 ?np] show ?thesis
    unfolding Let_def s m by blast
qed

theorem getContent_after_scan_witness:
  "fst (getTree (\<lambda>text ms. (Some (\<lparr>title = None, order = None\<rparr>, text), ms)) (\<lambda>a b. 0)
          (Dir [(''docs'', Dir [(''guide.md'', RegularFile (Some ''Guide'')),
                                (''locked.md'', RegularFile None)])])
          \<lparr>rootPath = ''/docs'', pathMap = Map.empty, navTree = None, siteTitle = None,
             watcher = False\<rparr> ())
     = Inr [NavNode ''Guide'' ''/guide'' FileNode [] None,
            NavNode ''Locked'' ''/locked'' FileNode [] None]
   \<and> fst (getContent (\<lambda>text ms. (Some (\<lparr>title = None, order = None\<rparr>, text), ms)) (\<lambda>a b. 0)
          (Dir [(''docs'', Dir [(''guide.md'', RegularFile (Some ''Guide'')),
                                (''locked.md'', RegularFile None)])])
          ''/missing''
          \<lparr>rootPath = ''/docs'', pathMap = Map.empty, navTree = None, siteTitle = None,
             watcher = False\<rparr> ())
     = Inr None
   \<and> fst (getContent (\<lambda>text ms. (Some (\<lparr>title = None, order = None\<rparr>, text), ms)) (\<lambda>a b. 0)
          (Dir [(''docs'', Dir [(''guide.md'', RegularFile (Some ''Guide'')),
                                (''locked.md'', RegularFile None)])])
          ''/locked''
          \<lparr>rootPath = ''/docs'', pathMap = Map.empty, navTree = None, siteTitle = None,
             watcher = False\<rparr> ())
     = Inr None
   \<and> fst (getContent (\<lambda>text ms. (Some (\<lparr>title = None, order = None\<rparr>, text), ms)) (\<lambda>a b. 0)
          (Dir [(''docs'', Dir [(''guide.md'', RegularFile (Some ''Guide'')),
                                (''locked.md'', RegularFile None)])])
          ''/guide''
          \<lparr>rootPath = ''/docs'', pathMap = Map.empty, navTree = None, siteTitle = None,
             watcher = False\<rparr> ())
     = Inr (Some \<lparr>raw = ''Guide'', frontmatter = \<lparr>title = None, order = None\<rparr>,
                     body = ''Guide''\<rparr>)"
proof -
  let ?m = "\<lambda>text (ms :: unit). (Some (\<lparr>title = None, order = None\<rparr>, text), ms)"
  let ?lc = "\<lambda>a b. 0 :: int"
  let ?fs = "Dir [(''docs'', Dir [(''guide.md'', RegularFile (Some ''Guide'')),
                                (''locked.md'', RegularFile None)])]"
  let ?st = "\<lparr>rootPath = ''/docs'', pathMap = Map.empty, navTree = None, siteTitle = None,
             watcher = False\<rparr>"
  have t: "fst (getTree ?m ?lc ?fs ?st ())
     = Inr [NavNode ''Guide'' ''/guide'' FileNode [] None,
            NavNode ''Locked'' ''/locked'' FileNode [] None]"
    by code_simp
  have c: "fst (getContent ?m ?lc ?fs ''/missing'' ?st ()) = Inr None" by code_simp
  have d: "fst (getContent ?m ?lc ?fs ''/locked'' ?st ()) = Inr None" by code_simp
  have e: "fst (getContent ?m ?lc ?fs ''/guide'' ?st ())
             = Inr (Some \<lparr>raw = ''Guide'', frontmatter = \<lparr>title = None, order = None\<rparr>,
                            body = ''Guide''\<rparr>)"
    by code_simp
  from getContent_after_scan [OF t, of "''/missing''"] t c d e show ?thesis by simp
qed

text \<open>
  Whether \<open>matter\<close> throws depends on its state, not only on the text. A parser that
  remembers a text before parsing it, and answers a remembered text without parsing,
  throws on a malformed header during the scan and not in \<open>getContent\<close> afterwards: the
  document is served, with empty metadata and the whole text as body.
\<close>

lemma getContent_remembered_text_is_served:
  "fst (getContent
          (\<lambda>text seen.
             if List.member seen text
             then (Some (\<lparr>title = None, order = None\<rparr>, text), seen)
             else (if startsWith text ''---'' then None
                   else Some (\<lparr>title = None, order = None\<rparr>, text), text # seen))
          (\<lambda>a b. 0)
          (Dir [(''docs'', Dir [(''bad.md'', RegularFile (Some ''---\<newline>title: [\<newline>---\<newline>Body''))])])
          ''/bad''
          \<lparr>rootPath = ''/docs'', pathMap = Map.empty, navTree = None, siteTitle = None,
             watcher = False\<rparr> [])
   = Inr (Some \<lparr>raw = ''---\<newline>title: [\<newline>---\<newline>Body'',
                  frontmatter = \<lparr>title = None, order = None\<rparr>,
                  body = ''---\<newline>title: [\<newline>---\<newline>Body''\<rparr>)"
  by code_simp

section \<open>Properties of sibling order\<close>

text \<open>
  C3. The claim is that a node whose file stem is \<open>index\<close>, \<open>readme\<close> or \<open>overview\<close> sorts
  before all its siblings, so that in a directory with \<open>index.md\<close> and \<open>notes.md\<close> the
  node of \<open>index.md\<close> is first. The comparator looks for the reserved name in the last
  segment of the node's URL path, and the URL path of \<open>index.md\<close> is that of its
  directory: the node is not recognised and is sorted like any other file. Here
  \<open>notes.md\<close> declares \<open>order: 1\<close> and is listed before \<open>index.md\<close>, whatever
  \<open>localeCompare\<close> answers.
\<close>

theorem getTree_index_after_ordered_sibling:
  "fst (getTree
          (\<lambda>text s. (if text = ''---\<newline>order: 1\<newline>---\<newline>Notes''
                      then Some (\<lparr>title = None, order = Some 1\<rparr>, ''Notes'')
                      else Some (\<lparr>title = None, order = None\<rparr>, text), s))
          lc
          (Dir [(''docs'', Dir [(''index.md'', RegularFile (Some ''Home'')),
                                (''notes.md'',
                                 RegularFile (Some ''---\<newline>order: 1\<newline>---\<newline>Notes''))])])
          \<lparr>rootPath = ''/docs'', pathMap = Map.empty, navTree = None, siteTitle = None,
             watcher = False\<rparr> ms)
   = Inr [NavNode ''Notes'' ''/notes'' FileNode [] (Some 1),
          NavNode ''Index'' ''/'' FileNode [] None]"
  by code_simp

text \<open>A directory also goes before \<open>index.md\<close>, while \<open>README.md\<close>, whose URL path keeps
  its stem, does go first.\<close>

lemma getTree_index_after_directory:
  "fst (getTree (\<lambda>text s. (Some (\<lparr>title = None, order = None\<rparr>, text), s)) lc
          (Dir [(''docs'', Dir [(''guides'', Dir [(''setup.md'', RegularFile (Some ''Setup''))]),
                                (''index.md'', RegularFile (Some ''Home''))])])
          \<lparr>rootPath = ''/docs'', pathMap = Map.empty, navTree = None, siteTitle = None,
             watcher = False\<rparr> ms)
   = Inr [NavNode ''Guides'' ''/guides'' DirectoryNode
            [NavNode ''Setup'' ''/guides/setup'' FileNode [] None] None,
          NavNode ''Index'' ''/'' FileNode [] None]"
  by code_simp

lemma getTree_readme_first:
  "fst (getTree (\<lambda>text s. (Some (\<lparr>title = None, order = None\<rparr>, text), s)) lc
          (Dir [(''docs'', Dir [(''guides'', Dir [(''setup.md'', RegularFile (Some ''Setup''))]),
                                (''README.md'', RegularFile (Some ''Home''))])])
          \<lparr>rootPath = ''/docs'', pathMap = Map.empty, navTree = None, siteTitle = None,
             watcher = False\<rparr> ms)
   = Inr [NavNode ''README'' ''/README'' FileNode [] None,
          NavNode ''Guides'' ''/guides'' DirectoryNode
            [NavNode ''Setup'' ''/guides/setup'' FileNode [] None] None]"
  by code_simp

section \<open>Properties of rendering\<close>

text \<open>
  C5. The claim is that, when the highlighter throws for a block, the page still comes
  out, with the block's content as escaped text in a \<open>pre\<close>/\<open>code\<close> container. No
  exception leaves \<open>renderMarkdown\<close>, but the fallback HTML is given to \<open>replace\<close> as a
  replacement template, in which \<open>$$\<close> stands for one dollar sign: the shell line
  \<open>echo $$\<close> comes out as \<open>echo $\<close>.
\<close>

theorem renderMarkdown_fallback_loses_dollar:
  \<open>renderMarkdown
     (Some \<lparr>loadedLanguages = [''bash'', ''plaintext''], codeToHtml = (\<lambda>cd lg. None)\<rparr>)
     [Html ''<h1>Setup</h1>'', Code ''echo $$'' ''bash'']
   = Inr ''<h1>Setup</h1><pre><code class="language-bash">echo $</code></pre>''\<close>
  by code_simp

text \<open>Without a dollar sign in the code the fallback is as the claim says.\<close>

lemma renderMarkdown_fallback_plain:
  \<open>renderMarkdown
     (Some \<lparr>loadedLanguages = [''bash'', ''plaintext''], codeToHtml = (\<lambda>cd lg. None)\<rparr>)
     [Html ''<h1>Setup</h1>'', Code ''a < b && c'' ''cobol'']
   = Inr ''<h1>Setup</h1><pre><code class="language-plaintext">a &lt; b &amp;&amp; c</code></pre>''\<close>
  by code_simp

text \<open>
  C6. The claim is that a document with one mermaid block and one typescript block
  renders to one diagram marker and the highlighted typescript block, with no
  placeholder token left. The highlighted HTML is the replacement template of
  \<open>replace\<close>, in which \<open>$&\<close> stands for the matched text, the placeholder itself. With
  a highlighter that wraps the escaped code, the typescript line
  \<open>s.replace(/a/, "$&")\<close> leaves \<open>__CODE_BLOCK_0__\<close> in the page.
\<close>

theorem renderMarkdown_placeholder_left:
  \<open>renderMarkdown
     (Some \<lparr>loadedLanguages = [''typescript'', ''plaintext''],
            codeToHtml = (\<lambda>cd lg. Some (''<pre class="shiki"><code>'' @ escapeHtml cd
                                             @ ''</code></pre>''))\<rparr>)
     [Code ''graph TD; A-->B'' ''mermaid'', Code ''s.replace(/a/, "$&")'' ''typescript'']
   = Inr (''<pre class="mermaid-source" data-diagram="graph TD; A--&gt;B">graph TD; A--&gt;B</pre>''
          @ ''<pre class="shiki"><code>s.replace(/a/, "__CODE_BLOCK_0__amp;")</code></pre>'')\<close>
  by code_simp

text \<open>Without a dollar sign in the highlighted HTML the page is as the claim says.\<close>

lemma renderMarkdown_mermaid_typescript:
  \<open>renderMarkdown
     (Some \<lparr>loadedLanguages = [''typescript'', ''plaintext''],
            codeToHtml = (\<lambda>cd lg. Some (''<pre class="shiki"><code>'' @ escapeHtml cd
                                             @ ''</code></pre>''))\<rparr>)
     [Code ''graph TD; A-->B'' ''mermaid'', Code ''let x = 1;'' ''typescript'']
   = Inr (''<pre class="mermaid-source" data-diagram="graph TD; A--&gt;B">graph TD; A--&gt;B</pre>''
          @ ''<pre class="shiki"><code>let x = 1;</code></pre>'')\<close>
  by code_simp

end
